theory Spec2Isabelle
  imports Main "HOL-Library.AList"
begin

section \<open>The DRA manager of the kubelet (pkg/kubelet/cm/dra/manager.go)\<close>

text \<open>
  A shallow embedding of \<^verbatim>\<open>ManagerImpl\<close>: \<^verbatim>\<open>PrepareResources\<close>,
  \<^verbatim>\<open>UnprepareResources\<close>, \<^verbatim>\<open>GetResources\<close>,
  \<^verbatim>\<open>GetContainerClaimInfos\<close> and \<^verbatim>\<open>PodMightNeedToUnprepareResources\<close>.
  One call is modelled as it runs alone (the cache lock serialises the transactions; the
  interleaving of two calls is not modelled). Go maps are association lists read through
  \<open>map_of\<close>; where the source ranges over a map, the order of the iteration is given
  by a rank function of the environment, so that a theorem holds for every order.
\<close>

subsection \<open>API objects\<close>

type_synonym UID = string

record ResourceHandle =
  rh_DriverName :: string
  rh_Data :: string
  rh_StructuredData :: "string option"

text \<open>\<^verbatim>\<open>resourceapi.ResourceClaim\<close>: the fields the manager reads.\<close>

record ResourceClaim =
  rc_Name :: string
  rc_Namespace :: string
  rc_UID :: UID
  rc_DriverName :: string
  rc_ResourceHandles :: "ResourceHandle list"
  rc_ReservedFor :: "UID list"

record PodResourceClaim =
  prc_Name :: string
  prc_Source :: string

record Container =
  ctr_Name :: string
  ctr_Claims :: "string list"

record Pod =
  p_Name :: string
  p_Namespace :: string
  p_UID :: UID
  p_ResourceClaims :: "PodResourceClaim list"
  p_InitContainers :: "Container list"
  p_Containers :: "Container list"

text \<open>\<^verbatim>\<open>drapb.Claim\<close>, one entry of a request batch.\<close>

record Claim =
  c_Namespace :: string
  c_Uid :: string
  c_Name :: string
  c_ResourceHandle :: string
  c_StructuredResourceHandle :: "string list"

record NodePrepareResourceResponse =
  prep_CDIDevices :: "string list"
  prep_Error :: string

record NodeUnprepareResourceResponse =
  unprep_Error :: string

subsection \<open>The claim info cache\<close>

type_synonym Annotation = "string \<times> string"

record ClaimInfo =
  ClaimUID :: UID
  ClaimName :: string
  Namespace :: string
  DriverName :: string
  ResourceHandles :: "ResourceHandle list"
  PodUIDs :: "UID set"
  CDIDevices :: "(string \<times> string list) list"
  annotations :: "(string \<times> Annotation list) list"
  prepared :: bool

text \<open>The cache maps (claim name, namespace) to the record; \<open>map_of\<close> reads it.\<close>

type_synonym claimInfoCache = "((string \<times> string) \<times> ClaimInfo) list"

datatype error =
    ErrClaimName string
  | ErrFetchClaim string
  | ErrNotForPod string
  | ErrNotReserved
  | ErrPluginClient string
  | ErrRPC string
  | ErrUnknownClaimUID string
  | ErrClaimFailed string
  | ErrNoClaimInfo
  | ErrSetCDIDevices
  | ErrLeftOut int
  | ErrCheckpoint
  | NilPointerPanic

text \<open>
  Modelled from the spec: claiminfo.go is not among the sources. \<^verbatim>\<open>get(namespace, name)\<close>
  is a pure lookup; \<^verbatim>\<open>add(record)\<close> inserts a new record under its own name and
  namespace (manager.go calls it only after \<^verbatim>\<open>get\<close> found nothing, and reads no
  error from it); \<^verbatim>\<open>delete(namespace, name)\<close> removes a record unconditionally.
\<close>

definition cache_get :: "claimInfoCache \<Rightarrow> string \<Rightarrow> string \<Rightarrow> ClaimInfo option" where
  "cache_get c name ns = map_of c (name, ns)"

definition cache_add :: "claimInfoCache \<Rightarrow> ClaimInfo \<Rightarrow> claimInfoCache" where
  "cache_add c info = AList.update (ClaimName info, Namespace info) info c"

definition cache_delete :: "claimInfoCache \<Rightarrow> string \<Rightarrow> string \<Rightarrow> claimInfoCache" where
  "cache_delete c name ns = AList.delete (name, ns) c"

text \<open>
  The cache holds pointers: a method that mutates the record \<^verbatim>\<open>get\<close> returned
  changes the cached record. \<open>cache_store\<close> writes the mutated record back under the
  key it was read from.
\<close>

definition cache_store :: "claimInfoCache \<Rightarrow> string \<Rightarrow> string \<Rightarrow> ClaimInfo \<Rightarrow> claimInfoCache" where
  "cache_store c name ns info = AList.update (name, ns) info c"

text \<open>
  Modelled from the spec: the methods of \<^verbatim>\<open>ClaimInfo\<close> (claiminfo.go, not among the
  sources). A record is created from the claim descriptor with no pod reference, no
  prepared device and \<open>prepared = False\<close>; \<open>podReferences\<close> is a set mutated by add and
  remove; \<open>prepared\<close> is set by \<^verbatim>\<open>setPrepared\<close>.
\<close>

definition newClaimInfoFromClaim :: "ResourceClaim \<Rightarrow> ClaimInfo" where
  "newClaimInfoFromClaim rc =
     \<lparr>ClaimUID = rc_UID rc, ClaimName = rc_Name rc, Namespace = rc_Namespace rc,
      DriverName = rc_DriverName rc, ResourceHandles = rc_ResourceHandles rc,
      PodUIDs = {}, CDIDevices = [], annotations = [], prepared = False\<rparr>"

definition addPodReference :: "ClaimInfo \<Rightarrow> UID \<Rightarrow> ClaimInfo" where
  "addPodReference info uid = info\<lparr>PodUIDs := insert uid (PodUIDs info)\<rparr>"

definition deletePodReference :: "ClaimInfo \<Rightarrow> UID \<Rightarrow> ClaimInfo" where
  "deletePodReference info uid = info\<lparr>PodUIDs := PodUIDs info - {uid}\<rparr>"

definition isPrepared :: "ClaimInfo \<Rightarrow> bool" where
  "isPrepared info = prepared info"

definition setPrepared :: "ClaimInfo \<Rightarrow> ClaimInfo" where
  "setPrepared info = info\<lparr>prepared := True\<rparr>"

subsection \<open>The collaborators\<close>

text \<open>
  What the manager calls outside its own package: \<^verbatim>\<open>resourceclaim.Name\<close>, the API
  server, \<^verbatim>\<open>resourceclaim.IsForPod\<close>, the plugin clients, the generation of the
  CDI annotations and the checkpoint file. A response of a plugin is a Go map from claim
  UID to result: the list gives its entries in the order the \<^verbatim>\<open>range\<close> loop visits
  them. \<open>batchRank\<close> and \<open>claimRank\<close> order the iterations over the maps
  \<^verbatim>\<open>batches\<close> and \<^verbatim>\<open>resourceClaims\<close>.
\<close>

record Env =
  resolveClaimName :: "Pod \<Rightarrow> PodResourceClaim \<Rightarrow> string + (string option \<times> bool)"
  getResourceClaim :: "string \<Rightarrow> string \<Rightarrow> string + ResourceClaim"
  isForPod :: "Pod \<Rightarrow> ResourceClaim \<Rightarrow> string option"
  newDRAPluginClient :: "string \<Rightarrow> string option"
  nodePrepareResources :: "string \<Rightarrow> Claim list \<Rightarrow> string + (string \<times> NodePrepareResourceResponse) list"
  nodeUnprepareResources :: "string \<Rightarrow> Claim list \<Rightarrow> string + (string \<times> NodeUnprepareResourceResponse) list"
  generateAnnotations :: "UID \<Rightarrow> string \<Rightarrow> string list \<Rightarrow> Annotation list option"
  writeCheckpoint :: "claimInfoCache \<Rightarrow> bool"
  batchRank :: "string \<Rightarrow> nat"
  claimRank :: "UID \<Rightarrow> nat"

text \<open>
  Modelled from the spec: \<^verbatim>\<open>resourceclaim.IsReservedForPod\<close> (the workload is listed
  as a current reservation holder of the claim).
\<close>

definition IsReservedForPod :: "Pod \<Rightarrow> ResourceClaim \<Rightarrow> bool" where
  "IsReservedForPod pod rc = (p_UID pod \<in> set (rc_ReservedFor rc))"

text \<open>
  Modelled from the spec: \<^verbatim>\<open>setCDIDevices\<close> (claiminfo.go) stores the device list a
  plugin returned under the plugin's name; manager.go reads an error from it. It does not
  touch \<open>prepared\<close>, which manager.go sets through \<^verbatim>\<open>setPrepared\<close>.
\<close>

definition setCDIDevices :: "Env \<Rightarrow> ClaimInfo \<Rightarrow> string \<Rightarrow> string list \<Rightarrow> ClaimInfo option" where
  "setCDIDevices env info pluginName devices =
     (case generateAnnotations env (ClaimUID info) (DriverName info) devices of
        None \<Rightarrow> None
      | Some anns \<Rightarrow>
          Some (info\<lparr>CDIDevices := AList.update pluginName devices (CDIDevices info),
                     annotations := AList.update pluginName anns (annotations info)\<rparr>))"

subsection \<open>The state of the manager\<close>

text \<open>
  The in-memory cache, the checkpoint on disk, and the plugin calls issued so far (a
  history the source does not keep; it is what the claims about the RPCs speak of).
\<close>

datatype RPC =
    PrepareCall string "Claim list"
  | UnprepareCall string "Claim list"

record ManagerImpl =
  cache :: claimInfoCache
  checkpoint :: claimInfoCache
  rpcs :: "RPC list"

subsection \<open>Request batches\<close>

text \<open>\<^verbatim>\<open>batches[pluginName] = append(batches[pluginName], claim)\<close>\<close>

definition batch_append :: "(string \<times> Claim list) list \<Rightarrow> string \<Rightarrow> Claim \<Rightarrow> (string \<times> Claim list) list" where
  "batch_append batches pluginName claim =
     (case map_of batches pluginName of
        None \<Rightarrow> batches @ [(pluginName, [claim])]
      | Some claims \<Rightarrow> AList.update pluginName (claims @ [claim]) batches)"

definition mkClaim :: "ClaimInfo \<Rightarrow> ResourceHandle \<Rightarrow> Claim" where
  "mkClaim claimInfo resourceHandle =
     \<lparr>c_Namespace = Namespace claimInfo, c_Uid = ClaimUID claimInfo,
      c_Name = ClaimName claimInfo, c_ResourceHandle = rh_Data resourceHandle,
      c_StructuredResourceHandle =
        (case rh_StructuredData resourceHandle of None \<Rightarrow> [] | Some sd \<Rightarrow> [sd])\<rparr>"

text \<open>The plugin name as PrepareResources computes it (manager.go, lines 157 to 160).\<close>

definition preparePluginName :: "ClaimInfo \<Rightarrow> ResourceHandle \<Rightarrow> string" where
  "preparePluginName claimInfo resourceHandle =
     (let pluginName = DriverName claimInfo
      in if pluginName = [] then DriverName claimInfo else pluginName)"

text \<open>The plugin name as UnprepareResources computes it (manager.go, lines 387 to 390).\<close>

definition unpreparePluginName :: "ClaimInfo \<Rightarrow> ResourceHandle \<Rightarrow> string" where
  "unpreparePluginName claimInfo resourceHandle =
     (let pluginName = rh_DriverName resourceHandle
      in if pluginName = [] then DriverName claimInfo else pluginName)"

fun batchHandles :: "(ClaimInfo \<Rightarrow> ResourceHandle \<Rightarrow> string) \<Rightarrow> ClaimInfo \<Rightarrow> ResourceHandle list
    \<Rightarrow> (string \<times> Claim list) list \<Rightarrow> (string \<times> Claim list) list" where
  "batchHandles pn claimInfo [] batches = batches"
| "batchHandles pn claimInfo (h # hs) batches =
     batchHandles pn claimInfo hs (batch_append batches (pn claimInfo h) (mkClaim claimInfo h))"

subsection \<open>PrepareResources\<close>

fun claimIsUsedByContainer :: "PodResourceClaim \<Rightarrow> Container \<Rightarrow> bool" where
  "claimIsUsedByContainer podClaim container = (prc_Name podClaim \<in> set (ctr_Claims container))"

fun claimIsUsedByContainers :: "PodResourceClaim \<Rightarrow> Container list \<Rightarrow> bool" where
  "claimIsUsedByContainers podClaim [] = False"
| "claimIsUsedByContainers podClaim (c # cs) =
     (if claimIsUsedByContainer podClaim c then True else claimIsUsedByContainers podClaim cs)"

definition claimIsUsedByPod :: "PodResourceClaim \<Rightarrow> Pod \<Rightarrow> bool" where
  "claimIsUsedByPod podClaim pod =
     (if claimIsUsedByContainers podClaim (p_InitContainers pod) then True
      else if claimIsUsedByContainers podClaim (p_Containers pod) then True
      else False)"

text \<open>
  What the loop over \<^verbatim>\<open>pod.Spec.ResourceClaims\<close> carries: the cache, the batches, the
  map \<^verbatim>\<open>resourceClaims\<close> and the deferred compensations (the last registered first,
  as Go runs them).
\<close>

record PrepareAcc =
  pa_cache :: claimInfoCache
  pa_batches :: "(string \<times> Claim list) list"
  pa_resourceClaims :: "(UID \<times> ResourceClaim) list"
  pa_deferred :: "ResourceClaim list"

text \<open>The transaction of lines 125 to 174; its closure returns no error.\<close>

definition prepareLocked :: "Pod \<Rightarrow> ResourceClaim \<Rightarrow> PrepareAcc \<Rightarrow> PrepareAcc" where
  "prepareLocked pod resourceClaim a =
     (let c0 = pa_cache a;
          found = cache_get c0 (rc_Name resourceClaim) (rc_Namespace resourceClaim);
          c1 = (case found of Some i \<Rightarrow> c0 | None \<Rightarrow> cache_add c0 (newClaimInfoFromClaim resourceClaim));
          info0 = (case found of Some i \<Rightarrow> i | None \<Rightarrow> newClaimInfoFromClaim resourceClaim);
          claimInfo = addPodReference info0 (p_UID pod);
          c2 = cache_store c1 (rc_Name resourceClaim) (rc_Namespace resourceClaim) claimInfo
      in if isPrepared claimInfo then a\<lparr>pa_cache := c2\<rparr>
         else a\<lparr>pa_cache := c2,
                pa_resourceClaims := AList.update (ClaimUID claimInfo) resourceClaim (pa_resourceClaims a),
                pa_batches := batchHandles preparePluginName claimInfo (ResourceHandles claimInfo) (pa_batches a)\<rparr>)"

fun prepareClaims :: "Env \<Rightarrow> Pod \<Rightarrow> PodResourceClaim list \<Rightarrow> PrepareAcc \<Rightarrow> error option \<times> PrepareAcc" where
  "prepareClaims env pod [] a = (None, a)"
| "prepareClaims env pod (podClaim # rest) a =
     (case resolveClaimName env pod podClaim of
        Inl e \<Rightarrow> (Some (ErrClaimName e), a)
      | Inr (None, mustCheckOwner) \<Rightarrow> prepareClaims env pod rest a
      | Inr (Some claimName, mustCheckOwner) \<Rightarrow>
          (case getResourceClaim env (p_Namespace pod) claimName of
             Inl e \<Rightarrow> (Some (ErrFetchClaim e), a)
           | Inr resourceClaim \<Rightarrow>
               (case (if mustCheckOwner then isForPod env pod resourceClaim else None) of
                  Some e \<Rightarrow> (Some (ErrNotForPod e), a)
                | None \<Rightarrow>
                    if \<not> IsReservedForPod pod resourceClaim then (Some ErrNotReserved, a)
                    else if \<not> claimIsUsedByPod podClaim pod then prepareClaims env pod rest a
                    else prepareClaims env pod rest
                           (prepareLocked pod resourceClaim
                              (a\<lparr>pa_deferred := resourceClaim # pa_deferred a\<rparr>)))))"

fun lookupClaimRequest :: "Claim list \<Rightarrow> string \<Rightarrow> Claim option" where
  "lookupClaimRequest [] claimUID = None"
| "lookupClaimRequest (claim # claims) claimUID =
     (if c_Uid claim = claimUID then Some claim else lookupClaimRequest claims claimUID)"

text \<open>
  The loop over \<^verbatim>\<open>response.Claims\<close> (lines 194 to 220). \<^verbatim>\<open>resourceClaims[claimUID]\<close>
  of a missing key is a nil pointer, and reading its name panics.
\<close>

fun applyPrepareResults :: "Env \<Rightarrow> string \<Rightarrow> Claim list \<Rightarrow> (UID \<times> ResourceClaim) list
    \<Rightarrow> (string \<times> NodePrepareResourceResponse) list \<Rightarrow> claimInfoCache \<Rightarrow> error option \<times> claimInfoCache" where
  "applyPrepareResults env pluginName claims resourceClaims [] c = (None, c)"
| "applyPrepareResults env pluginName claims resourceClaims ((claimUID, result) # rest) c =
     (case lookupClaimRequest claims claimUID of
        None \<Rightarrow> (Some (ErrUnknownClaimUID claimUID), c)
      | Some reqClaim \<Rightarrow>
          if prep_Error result \<noteq> [] then (Some (ErrClaimFailed (prep_Error result)), c)
          else
            (case map_of resourceClaims claimUID of
               None \<Rightarrow> (Some NilPointerPanic, c)
             | Some claim \<Rightarrow>
                 (case cache_get c (rc_Name claim) (rc_Namespace claim) of
                    None \<Rightarrow> (Some ErrNoClaimInfo, c)
                  | Some info \<Rightarrow>
                      (case setCDIDevices env info pluginName (prep_CDIDevices result) of
                         None \<Rightarrow> (Some ErrSetCDIDevices, c)
                       | Some info' \<Rightarrow>
                           applyPrepareResults env pluginName claims resourceClaims rest
                             (cache_store c (rc_Name claim) (rc_Namespace claim) info')))))"

text \<open>The loop over \<^verbatim>\<open>batches\<close> (lines 183 to 226), in the order it visits them.\<close>

fun prepareBatches :: "Env \<Rightarrow> (UID \<times> ResourceClaim) list \<Rightarrow> (string \<times> Claim list) list
    \<Rightarrow> claimInfoCache \<Rightarrow> RPC list \<Rightarrow> error option \<times> claimInfoCache \<times> RPC list" where
  "prepareBatches env resourceClaims [] c log = (None, c, log)"
| "prepareBatches env resourceClaims ((pluginName, claims) # rest) c log =
     (case newDRAPluginClient env pluginName of
        Some e \<Rightarrow> (Some (ErrPluginClient e), c, log)
      | None \<Rightarrow>
          (case nodePrepareResources env pluginName claims of
             Inl e \<Rightarrow> (Some (ErrRPC e), c, log @ [PrepareCall pluginName claims])
           | Inr response \<Rightarrow>
               (case applyPrepareResults env pluginName claims resourceClaims response c of
                  (Some e, c') \<Rightarrow> (Some e, c', log @ [PrepareCall pluginName claims])
                | (None, c') \<Rightarrow>
                    if int (length claims) - int (length response) \<noteq> 0
                    then (Some (ErrLeftOut (int (length claims) - int (length response))), c',
                          log @ [PrepareCall pluginName claims])
                    else prepareBatches env resourceClaims rest c'
                           (log @ [PrepareCall pluginName claims]))))"

text \<open>The loop of the last transaction (lines 231 to 237).\<close>

fun markPrepared :: "(UID \<times> ResourceClaim) list \<Rightarrow> claimInfoCache \<Rightarrow> error option \<times> claimInfoCache" where
  "markPrepared [] c = (None, c)"
| "markPrepared ((uid, claim) # rest) c =
     (case cache_get c (rc_Name claim) (rc_Namespace claim) of
        None \<Rightarrow> (Some ErrNoClaimInfo, c)
      | Some info \<Rightarrow>
          markPrepared rest (cache_store c (rc_Name claim) (rc_Namespace claim) (setPrepared info)))"

text \<open>
  The deferred function of lines 113 to 122, and all of them run at the return. A panic
  leaves \<^verbatim>\<open>rerr\<close> nil, so the deferred functions change nothing then.
\<close>

definition deferredCleanup :: "Pod \<Rightarrow> ResourceClaim \<Rightarrow> claimInfoCache \<Rightarrow> claimInfoCache" where
  "deferredCleanup pod claim c =
     (case cache_get c (rc_Name claim) (rc_Namespace claim) of
        None \<Rightarrow> c
      | Some claimInfo \<Rightarrow>
          cache_store c (rc_Name claim) (rc_Namespace claim) (deletePodReference claimInfo (p_UID pod)))"

definition runDeferred :: "Pod \<Rightarrow> error option \<Rightarrow> ResourceClaim list \<Rightarrow> claimInfoCache \<Rightarrow> claimInfoCache" where
  "runDeferred pod rerr deferred c =
     (if rerr \<noteq> None \<and> rerr \<noteq> Some NilPointerPanic then fold (deferredCleanup pod) deferred c else c)"

definition orderBatches :: "Env \<Rightarrow> (string \<times> Claim list) list \<Rightarrow> (string \<times> Claim list) list" where
  "orderBatches env batches = sort_key (\<lambda>b. batchRank env (fst b)) batches"

definition orderClaims :: "Env \<Rightarrow> (UID \<times> ResourceClaim) list \<Rightarrow> (UID \<times> ResourceClaim) list" where
  "orderClaims env resourceClaims = sort_key (\<lambda>r. claimRank env (fst r)) resourceClaims"

definition initPrepareAcc :: "ManagerImpl \<Rightarrow> PrepareAcc" where
  "initPrepareAcc m = \<lparr>pa_cache = cache m, pa_batches = [], pa_resourceClaims = [], pa_deferred = []\<rparr>"

definition PrepareResources :: "Env \<Rightarrow> Pod \<Rightarrow> ManagerImpl \<Rightarrow> error option \<times> ManagerImpl" where
  "PrepareResources env pod m =
     (case prepareClaims env pod (p_ResourceClaims pod) (initPrepareAcc m) of
        (Some e, a) \<Rightarrow>
          (Some e, m\<lparr>cache := runDeferred pod (Some e) (pa_deferred a) (pa_cache a)\<rparr>)
      | (None, a) \<Rightarrow>
          (case prepareBatches env (pa_resourceClaims a) (orderBatches env (pa_batches a))
                  (pa_cache a) (rpcs m) of
             (Some e, c, log) \<Rightarrow>
               (Some e, m\<lparr>cache := runDeferred pod (Some e) (pa_deferred a) c, rpcs := log\<rparr>)
           | (None, c, log) \<Rightarrow>
               (case markPrepared (orderClaims env (pa_resourceClaims a)) c of
                  (Some e, c') \<Rightarrow>
                    (Some e, m\<lparr>cache := runDeferred pod (Some e) (pa_deferred a) c', rpcs := log\<rparr>)
                | (None, c') \<Rightarrow>
                    if writeCheckpoint env c'
                    then (None, \<lparr>cache = c', checkpoint = c', rpcs = log\<rparr>)
                    else (Some ErrCheckpoint,
                          m\<lparr>cache := runDeferred pod (Some ErrCheckpoint) (pa_deferred a) c',
                            rpcs := log\<rparr>))))"

subsection \<open>UnprepareResources\<close>

record UnprepareAcc =
  ua_cache :: claimInfoCache
  ua_batches :: "(string \<times> Claim list) list"
  ua_claimNames :: "(UID \<times> string) list"

text \<open>The transaction of lines 358 to 405; its closure returns no error.\<close>

definition unprepareLocked :: "Pod \<Rightarrow> string \<Rightarrow> UnprepareAcc \<Rightarrow> UnprepareAcc" where
  "unprepareLocked pod claimName a =
     (case cache_get (ua_cache a) claimName (p_Namespace pod) of
        None \<Rightarrow> a
      | Some claimInfo \<Rightarrow>
          if card (PodUIDs claimInfo) > 1
          then a\<lparr>ua_cache := cache_store (ua_cache a) claimName (p_Namespace pod)
                               (deletePodReference claimInfo (p_UID pod))\<rparr>
          else a\<lparr>ua_claimNames := AList.update (ClaimUID claimInfo) (ClaimName claimInfo) (ua_claimNames a),
                 ua_batches := batchHandles unpreparePluginName claimInfo (ResourceHandles claimInfo)
                                 (ua_batches a)\<rparr>)"

fun unprepareClaims :: "Env \<Rightarrow> Pod \<Rightarrow> PodResourceClaim list \<Rightarrow> UnprepareAcc \<Rightarrow> error option \<times> UnprepareAcc" where
  "unprepareClaims env pod [] a = (None, a)"
| "unprepareClaims env pod (podClaim # rest) a =
     (case resolveClaimName env pod podClaim of
        Inl e \<Rightarrow> (Some (ErrClaimName e), a)
      | Inr (None, mustCheckOwner) \<Rightarrow> unprepareClaims env pod rest a
      | Inr (Some claimName, mustCheckOwner) \<Rightarrow>
          unprepareClaims env pod rest (unprepareLocked pod claimName a))"

text \<open>
  The loop over \<^verbatim>\<open>response.Claims\<close> (lines 426 to 449). \<^verbatim>\<open>claimNames[claimUID]\<close>
  of a missing key is the empty string.
\<close>

fun applyUnprepareResults :: "Pod \<Rightarrow> Claim list \<Rightarrow> (UID \<times> string) list
    \<Rightarrow> (string \<times> NodeUnprepareResourceResponse) list \<Rightarrow> claimInfoCache \<Rightarrow> error option \<times> claimInfoCache" where
  "applyUnprepareResults pod claims claimNames [] c = (None, c)"
| "applyUnprepareResults pod claims claimNames ((claimUID, result) # rest) c =
     (case lookupClaimRequest claims claimUID of
        None \<Rightarrow> (Some (ErrUnknownClaimUID claimUID), c)
      | Some reqClaim \<Rightarrow>
          if unprep_Error result \<noteq> [] then (Some (ErrClaimFailed (unprep_Error result)), c)
          else applyUnprepareResults pod claims claimNames rest
                 (cache_delete c (case map_of claimNames claimUID of None \<Rightarrow> [] | Some n \<Rightarrow> n)
                    (p_Namespace pod)))"

fun unprepareBatches :: "Env \<Rightarrow> Pod \<Rightarrow> (UID \<times> string) list \<Rightarrow> (string \<times> Claim list) list
    \<Rightarrow> claimInfoCache \<Rightarrow> RPC list \<Rightarrow> error option \<times> claimInfoCache \<times> RPC list" where
  "unprepareBatches env pod claimNames [] c log = (None, c, log)"
| "unprepareBatches env pod claimNames ((pluginName, claims) # rest) c log =
     (case newDRAPluginClient env pluginName of
        Some e \<Rightarrow> (Some (ErrPluginClient e), c, log)
      | None \<Rightarrow>
          (case nodeUnprepareResources env pluginName claims of
             Inl e \<Rightarrow> (Some (ErrRPC e), c, log @ [UnprepareCall pluginName claims])
           | Inr response \<Rightarrow>
               (case applyUnprepareResults pod claims claimNames response c of
                  (Some e, c') \<Rightarrow> (Some e, c', log @ [UnprepareCall pluginName claims])
                | (None, c') \<Rightarrow>
                    if int (length claims) - int (length response) \<noteq> 0
                    then (Some (ErrLeftOut (int (length claims) - int (length response))), c',
                          log @ [UnprepareCall pluginName claims])
                    else unprepareBatches env pod claimNames rest c'
                           (log @ [UnprepareCall pluginName claims]))))"

definition initUnprepareAcc :: "ManagerImpl \<Rightarrow> UnprepareAcc" where
  "initUnprepareAcc m = \<lparr>ua_cache = cache m, ua_batches = [], ua_claimNames = []\<rparr>"

definition UnprepareResources :: "Env \<Rightarrow> Pod \<Rightarrow> ManagerImpl \<Rightarrow> error option \<times> ManagerImpl" where
  "UnprepareResources env pod m =
     (case unprepareClaims env pod (p_ResourceClaims pod) (initUnprepareAcc m) of
        (Some e, a) \<Rightarrow> (Some e, m\<lparr>cache := ua_cache a\<rparr>)
      | (None, a) \<Rightarrow>
          (case unprepareBatches env pod (ua_claimNames a) (orderBatches env (ua_batches a))
                  (ua_cache a) (rpcs m) of
             (Some e, c, log) \<Rightarrow> (Some e, m\<lparr>cache := c, rpcs := log\<rparr>)
           | (None, c, log) \<Rightarrow>
               if writeCheckpoint env c
               then (None, \<lparr>cache = c, checkpoint = c, rpcs = log\<rparr>)
               else (Some ErrCheckpoint, m\<lparr>cache := c, rpcs := log\<rparr>)))"

subsection \<open>The read operations\<close>

text \<open>
  Modelled from the spec: \<^verbatim>\<open>annotationsAsList\<close>, \<^verbatim>\<open>cdiDevicesAsList\<close> and
  \<^verbatim>\<open>hasPodReference\<close> (claiminfo.go, not among the sources): the lists a record holds
  for all its plugins, and whether any cached record still references the pod.
\<close>

definition annotationsAsList :: "ClaimInfo \<Rightarrow> Annotation list" where
  "annotationsAsList info = concat (map snd (annotations info))"

definition cdiDevicesAsList :: "ClaimInfo \<Rightarrow> string list" where
  "cdiDevicesAsList info = concat (map snd (CDIDevices info))"

definition hasPodReference :: "claimInfoCache \<Rightarrow> UID \<Rightarrow> bool" where
  "hasPodReference c uid =
     list_ex (\<lambda>e. map_of c (fst e) = Some (snd e) \<and> uid \<in> PodUIDs (snd e)) c"

record ContainerInfo =
  ci_Annotations :: "Annotation list"
  ci_CDIDevices :: "string list"

text \<open>The inner loop of GetResources (lines 307 to 331), for a claim name that is not nil.\<close>

fun getResourcesClaims :: "claimInfoCache \<Rightarrow> Pod \<Rightarrow> string \<Rightarrow> string \<Rightarrow> string list
    \<Rightarrow> ContainerInfo \<Rightarrow> error + ContainerInfo" where
  "getResourcesClaims c pod podClaimName claimName [] acc = Inr acc"
| "getResourcesClaims c pod podClaimName claimName (claim # rest) acc =
     (if podClaimName \<noteq> claim then getResourcesClaims c pod podClaimName claimName rest acc
      else
        (case cache_get c claimName (p_Namespace pod) of
           None \<Rightarrow> Inl ErrNoClaimInfo
         | Some claimInfo \<Rightarrow>
             getResourcesClaims c pod podClaimName claimName rest
               \<lparr>ci_Annotations = ci_Annotations acc @ annotationsAsList claimInfo,
                ci_CDIDevices = ci_CDIDevices acc @ cdiDevicesAsList claimInfo\<rparr>))"

fun getResourcesLoop :: "Env \<Rightarrow> claimInfoCache \<Rightarrow> Pod \<Rightarrow> Container \<Rightarrow> PodResourceClaim list
    \<Rightarrow> ContainerInfo \<Rightarrow> error + ContainerInfo" where
  "getResourcesLoop env c pod container [] acc = Inr acc"
| "getResourcesLoop env c pod container (podResourceClaim # rest) acc =
     (case resolveClaimName env pod podResourceClaim of
        Inl e \<Rightarrow> Inl (ErrClaimName e)
      | Inr (None, mustCheckOwner) \<Rightarrow> getResourcesLoop env c pod container rest acc
      | Inr (Some claimName, mustCheckOwner) \<Rightarrow>
          (case getResourcesClaims c pod (prc_Name podResourceClaim) claimName
                  (ctr_Claims container) acc of
             Inl e \<Rightarrow> Inl e
           | Inr acc' \<Rightarrow> getResourcesLoop env c pod container rest acc'))"

definition GetResources :: "Env \<Rightarrow> Pod \<Rightarrow> Container \<Rightarrow> ManagerImpl \<Rightarrow> (error + ContainerInfo) \<times> ManagerImpl" where
  "GetResources env pod container m =
     (getResourcesLoop env (cache m) pod container (p_ResourceClaims pod)
        \<lparr>ci_Annotations = [], ci_CDIDevices = []\<rparr>, m)"

text \<open>
  The inner loop of GetContainerClaimInfos (lines 489 to 505). The claim name is the
  pointer \<^verbatim>\<open>resourceclaim.Name\<close> returned; the closure dereferences it, and the
  dereference of nil panics. \<^verbatim>\<open>DeepCopy\<close> is the copy of the value.
\<close>

fun getClaimInfosClaims :: "claimInfoCache \<Rightarrow> Pod \<Rightarrow> string \<Rightarrow> string option \<Rightarrow> string list
    \<Rightarrow> ClaimInfo list \<Rightarrow> error + ClaimInfo list" where
  "getClaimInfosClaims c pod podClaimName claimName [] acc = Inr acc"
| "getClaimInfosClaims c pod podClaimName claimName (claim # rest) acc =
     (if podClaimName \<noteq> claim then getClaimInfosClaims c pod podClaimName claimName rest acc
      else
        (case claimName of
           None \<Rightarrow> Inl NilPointerPanic
         | Some name \<Rightarrow>
             (case cache_get c name (p_Namespace pod) of
                None \<Rightarrow> Inl ErrNoClaimInfo
              | Some claimInfo \<Rightarrow>
                  getClaimInfosClaims c pod podClaimName claimName rest (acc @ [claimInfo]))))"

fun getClaimInfosLoop :: "Env \<Rightarrow> claimInfoCache \<Rightarrow> Pod \<Rightarrow> Container \<Rightarrow> PodResourceClaim list
    \<Rightarrow> ClaimInfo list \<Rightarrow> error + ClaimInfo list" where
  "getClaimInfosLoop env c pod container [] acc = Inr acc"
| "getClaimInfosLoop env c pod container (podResourceClaim # rest) acc =
     (case resolveClaimName env pod podResourceClaim of
        Inl e \<Rightarrow> Inl (ErrClaimName e)
      | Inr (claimName, mustCheckOwner) \<Rightarrow>
          (case getClaimInfosClaims c pod (prc_Name podResourceClaim) claimName
                  (ctr_Claims container) acc of
             Inl e \<Rightarrow> Inl e
           | Inr acc' \<Rightarrow> getClaimInfosLoop env c pod container rest acc'))"

definition GetContainerClaimInfos :: "Env \<Rightarrow> Pod \<Rightarrow> Container \<Rightarrow> ManagerImpl \<Rightarrow> (error + ClaimInfo list) \<times> ManagerImpl" where
  "GetContainerClaimInfos env pod container m =
     (getClaimInfosLoop env (cache m) pod container (p_ResourceClaims pod) [], m)"

definition PodMightNeedToUnprepareResources :: "UID \<Rightarrow> ManagerImpl \<Rightarrow> bool \<times> ManagerImpl" where
  "PodMightNeedToUnprepareResources uid m = (hasPodReference (cache m) uid, m)"

subsection \<open>A concrete scenario\<close>

text \<open>
  One claim with one resource handle: the handle names the driver gpu.example.com, the
  claim's status names nic.example.com. The pods use the claim in their only container;
  the plugins, the API server and the checkpoint file all answer with success.
\<close>

definition exHandle :: ResourceHandle where
  "exHandle = \<lparr>rh_DriverName = ''gpu.example.com'', rh_Data = ''h'', rh_StructuredData = None\<rparr>"

definition exClaim :: ResourceClaim where
  "exClaim = \<lparr>rc_Name = ''claim'', rc_Namespace = ''ns'', rc_UID = ''uid-1'',
     rc_DriverName = ''nic.example.com'', rc_ResourceHandles = [exHandle],
     rc_ReservedFor = [''pod-a'', ''pod-b'']\<rparr>"

definition exPod :: "UID \<Rightarrow> Pod" where
  "exPod uid = \<lparr>p_Name = uid, p_Namespace = ''ns'', p_UID = uid,
     p_ResourceClaims = [\<lparr>prc_Name = ''res'', prc_Source = ''claim''\<rparr>],
     p_InitContainers = [],
     p_Containers = [\<lparr>ctr_Name = ''main'', ctr_Claims = [''res'']\<rparr>]\<rparr>"

definition exEnv :: Env where
  "exEnv = \<lparr>resolveClaimName = (\<lambda>pod pc. Inr (Some (prc_Source pc), False)),
     getResourceClaim = (\<lambda>ns name. Inr exClaim),
     isForPod = (\<lambda>pod rc. None),
     newDRAPluginClient = (\<lambda>p. None),
     nodePrepareResources =
       (\<lambda>p claims. Inr (map (\<lambda>c. (c_Uid c, \<lparr>prep_CDIDevices = [''dev''], prep_Error = []\<rparr>)) claims)),
     nodeUnprepareResources =
       (\<lambda>p claims. Inr (map (\<lambda>c. (c_Uid c, \<lparr>unprep_Error = []\<rparr>)) claims)),
     generateAnnotations = (\<lambda>uid d devs. Some []),
     writeCheckpoint = (\<lambda>c. True),
     batchRank = (\<lambda>p. 0), claimRank = (\<lambda>u. 0)\<rparr>"

definition exRequest :: Claim where
  "exRequest = \<lparr>c_Namespace = ''ns'', c_Uid = ''uid-1'', c_Name = ''claim'',
     c_ResourceHandle = ''h'', c_StructuredResourceHandle = []\<rparr>"

definition exInfo :: "UID set \<Rightarrow> ClaimInfo" where
  "exInfo pods = \<lparr>ClaimUID = ''uid-1'', ClaimName = ''claim'', Namespace = ''ns'',
     DriverName = ''nic.example.com'', ResourceHandles = [exHandle], PodUIDs = pods,
     CDIDevices = [(''nic.example.com'', [''dev''])], annotations = [(''nic.example.com'', [])],
     prepared = True\<rparr>"

definition exManager :: "UID set \<Rightarrow> ManagerImpl" where
  "exManager pods = \<lparr>cache = [((''claim'', ''ns''), exInfo pods)],
     checkpoint = [((''claim'', ''ns''), exInfo pods)], rpcs = []\<rparr>"

definition emptyManager :: ManagerImpl where
  "emptyManager = \<lparr>cache = [], checkpoint = [], rpcs = []\<rparr>"


text \<open>
  Variations of the scenario: a plugin whose response to NodePrepareResources names no
  claim, a checkpoint file that cannot be written, and the states the calls pass through.
\<close>

definition envShort :: Env where
  "envShort = exEnv\<lparr>nodePrepareResources := (\<lambda>p claims. Inr [])\<rparr>"

definition envNoCheckpoint :: Env where
  "envNoCheckpoint = exEnv\<lparr>writeCheckpoint := (\<lambda>c. False)\<rparr>"

definition exFresh :: "UID set \<Rightarrow> ClaimInfo" where
  "exFresh pods = \<lparr>ClaimUID = ''uid-1'', ClaimName = ''claim'', Namespace = ''ns'',
     DriverName = ''nic.example.com'', ResourceHandles = [exHandle], PodUIDs = pods,
     CDIDevices = [], annotations = [], prepared = False\<rparr>"

definition exPodClaim :: PodResourceClaim where
  "exPodClaim = \<lparr>prc_Name = ''res'', prc_Source = ''claim''\<rparr>"

subsection \<open>Relations between two states of the cache\<close>

text \<open>
  \<open>claimKey\<close> is the key under which PrepareResources caches the record of an API
  object. \<open>cacheRel R c c'\<close>: the two caches hold records under the same keys, and the
  records under one key are related by \<open>R\<close>. \<open>devicesOnly\<close> and \<open>preparedOnly\<close>
  relate a record to one that differs in the prepared devices only, or in the prepared
  flag only, the flag never going back to false.
\<close>

definition claimKey :: "ResourceClaim \<Rightarrow> string \<times> string" where
  "claimKey rc = (rc_Name rc, rc_Namespace rc)"

definition cacheRel :: "(ClaimInfo \<Rightarrow> ClaimInfo \<Rightarrow> bool) \<Rightarrow> claimInfoCache \<Rightarrow> claimInfoCache \<Rightarrow> bool" where
  "cacheRel R c c' = (\<forall>k. rel_option R (map_of c k) (map_of c' k))"

definition devicesOnly :: "ClaimInfo \<Rightarrow> ClaimInfo \<Rightarrow> bool" where
  "devicesOnly i i' = (i' = i\<lparr>CDIDevices := CDIDevices i', annotations := annotations i'\<rparr>)"

definition preparedOnly :: "ClaimInfo \<Rightarrow> ClaimInfo \<Rightarrow> bool" where
  "preparedOnly i i' = (i' = i\<lparr>prepared := prepared i'\<rparr> \<and> (prepared i \<longrightarrow> prepared i'))"

text \<open>
  \<open>prepareAdds uid K c c'\<close>: \<open>c'\<close> is \<open>c\<close> with the pod reference \<open>uid\<close> added to the
  records under the keys in \<open>K\<close>, a record missing under such a key being created from
  an API object first.
\<close>

definition prepareAdds :: "UID \<Rightarrow> (string \<times> string) set \<Rightarrow> claimInfoCache \<Rightarrow> claimInfoCache \<Rightarrow> bool" where
  "prepareAdds uid K c c' =
     (\<forall>k. case map_of c k of
            Some i \<Rightarrow> map_of c' k = Some (if k \<in> K then addPodReference i uid else i)
          | None \<Rightarrow>
              if k \<in> K
              then (\<exists>rc. claimKey rc = k \<and>
                         map_of c' k = Some (addPodReference (newClaimInfoFromClaim rc) uid))
              else map_of c' k = None)"

text \<open>
  \<open>statusOnly\<close> relates a record to one that differs in the prepared devices and the
  prepared flag only, the flag never going back to false.
\<close>

definition statusOnly :: "ClaimInfo \<Rightarrow> ClaimInfo \<Rightarrow> bool" where
  "statusOnly i i' =
     (i' = i\<lparr>CDIDevices := CDIDevices i', annotations := annotations i', prepared := prepared i'\<rparr>
      \<and> (prepared i \<longrightarrow> prepared i'))"

text \<open>
  \<open>refDropped uid\<close> relates a record to itself and to the record without the pod
  reference \<open>uid\<close>.
\<close>

definition refDropped :: "UID \<Rightarrow> ClaimInfo \<Rightarrow> ClaimInfo \<Rightarrow> bool" where
  "refDropped uid i i' = (i' = i \<or> i' = deletePodReference i uid)"

subsection \<open>Requests, batches and the history of plugin calls\<close>

text \<open>
  \<open>requestKey\<close> is the name and namespace a request carries; \<open>inBatch\<close> says that a
  request is in the batch of a plugin; \<open>namesClaim k\<close> that a plugin call carries a
  request for the claim with name and namespace \<open>k\<close>. \<open>prepareCallOf\<close> and
  \<open>unprepareCallOf\<close> are the calls the loops over the batches issue for one batch.
\<close>

definition requestKey :: "Claim \<Rightarrow> string \<times> string" where
  "requestKey c = (c_Name c, c_Namespace c)"

definition inBatch :: "(string \<times> Claim list) list \<Rightarrow> string \<Rightarrow> Claim \<Rightarrow> bool" where
  "inBatch batches p c = (\<exists>cs. map_of batches p = Some cs \<and> c \<in> set cs)"





text \<open>
  Two invariants of the cache the spec states: a record is cached under its own name and
  namespace, and no two records share a claim UID.
\<close>

definition keyedByName :: "claimInfoCache \<Rightarrow> bool" where
  "keyedByName c = (\<forall>k i. map_of c k = Some i \<longrightarrow> k = (ClaimName i, Namespace i))"




text \<open>
  What the first loop of PrepareResources keeps true of its accumulator: every request in a
  batch belongs to a cached record that is not prepared, stands in the batch of that
  record's driver name and carries its UID, which \<^verbatim>\<open>resourceClaims\<close> maps to an API
  object; and every API object in \<^verbatim>\<open>resourceClaims\<close> has its record in the cache.
\<close>

definition prepareInv :: "PrepareAcc \<Rightarrow> bool" where
  "prepareInv a =
     (keyedByName (pa_cache a) \<and> distinct (map fst (pa_batches a)) \<and>
      distinct (map fst (pa_resourceClaims a)) \<and>
      (\<forall>p c. inBatch (pa_batches a) p c \<longrightarrow>
         (\<exists>i. map_of (pa_cache a) (requestKey c) = Some i \<and> \<not> prepared i \<and>
              p = DriverName i \<and> c_Uid c = ClaimUID i \<and>
              map_of (pa_resourceClaims a) (ClaimUID i) \<noteq> None)) \<and>
      (\<forall>uid rc. map_of (pa_resourceClaims a) uid = Some rc \<longrightarrow>
         (\<exists>i. map_of (pa_cache a) (claimKey rc) = Some i \<and> ClaimUID i = uid)))"


text \<open>
  \<open>requestsKnown\<close>: the UID of every request in a batch is a key of
  \<^verbatim>\<open>resourceClaims\<close>.
\<close>

definition requestsKnown :: "PrepareAcc \<Rightarrow> bool" where
  "requestsKnown a =
     (distinct (map fst (pa_batches a)) \<and>
      (\<forall>p c. inBatch (pa_batches a) p c \<longrightarrow> map_of (pa_resourceClaims a) (c_Uid c) \<noteq> None))"

section \<open>Evaluation of the model\<close>

lemmas model_defs =
  PrepareResources_def UnprepareResources_def initPrepareAcc_def initUnprepareAcc_def
  prepareLocked_def unprepareLocked_def cache_get_def cache_add_def cache_store_def
  cache_delete_def newClaimInfoFromClaim_def addPodReference_def deletePodReference_def
  isPrepared_def setPrepared_def IsReservedForPod_def setCDIDevices_def batch_append_def
  mkClaim_def preparePluginName_def unpreparePluginName_def claimIsUsedByPod_def
  deferredCleanup_def runDeferred_def orderBatches_def orderClaims_def
  GetResources_def GetContainerClaimInfos_def PodMightNeedToUnprepareResources_def
  hasPodReference_def annotationsAsList_def cdiDevicesAsList_def

lemmas example_defs =
  exEnv_def exPod_def exClaim_def exHandle_def exRequest_def exInfo_def exManager_def
  emptyManager_def envShort_def envNoCheckpoint_def exFresh_def exPodClaim_def


section \<open>The cache operations read through the map\<close>

lemma map_of_cache_store: "map_of (cache_store c n ns i) = (map_of c)((n, ns) \<mapsto> i)"
  by (simp add: cache_store_def update_conv')

lemma map_of_cache_add: "map_of (cache_add c i) = (map_of c)((ClaimName i, Namespace i) \<mapsto> i)"
  by (simp add: cache_add_def update_conv')

lemma map_of_cache_delete: "map_of (cache_delete c n ns) = (map_of c)((n, ns) := None)"
  by (simp add: cache_delete_def delete_conv')

lemma hasPodReference_iff:
  "hasPodReference c uid \<longleftrightarrow> (\<exists>k i. map_of c k = Some i \<and> uid \<in> PodUIDs i)"
proof
  assume "hasPodReference c uid"
  then obtain e where "e \<in> set c" "map_of c (fst e) = Some (snd e)" "uid \<in> PodUIDs (snd e)"
    unfolding hasPodReference_def list_ex_iff by blast
  then show "\<exists>k i. map_of c k = Some i \<and> uid \<in> PodUIDs i" by blast
next
  assume "\<exists>k i. map_of c k = Some i \<and> uid \<in> PodUIDs i"
  then obtain k i where ki: "map_of c k = Some i" "uid \<in> PodUIDs i" by blast
  then have "(k, i) \<in> set c" by (simp add: map_of_SomeD)
  with ki show "hasPodReference c uid"
    unfolding hasPodReference_def list_ex_iff by force
qed


section \<open>How the phases of PrepareResources change the cache\<close>

lemma cacheRel_refl: "(\<And>i. R i i) \<Longrightarrow> cacheRel R c c"
  by (simp add: cacheRel_def option.rel_refl)

lemma cacheRel_trans:
  assumes "cacheRel R c c'" and "cacheRel R c' c''" and "\<And>x y z. R x y \<Longrightarrow> R y z \<Longrightarrow> R x z"
  shows "cacheRel R c c''"
  unfolding cacheRel_def
proof
  fix k
  from assms(1,2) have "rel_option R (map_of c k) (map_of c' k)" "rel_option R (map_of c' k) (map_of c'' k)"
    unfolding cacheRel_def by blast+
  then show "rel_option R (map_of c k) (map_of c'' k)"
    by (cases "map_of c k"; cases "map_of c' k"; cases "map_of c'' k") (auto intro: assms(3))
qed

lemma cacheRel_store:
  assumes "map_of c (n, ns) = Some i" and "R i i'" and "\<And>x. R x x"
  shows "cacheRel R c (cache_store c n ns i')"
  using assms by (auto simp: cacheRel_def map_of_cache_store option.rel_refl)

lemma cacheRel_mono:
  assumes "cacheRel R c c'" and "\<And>x y. R x y \<Longrightarrow> S x y"
  shows "cacheRel S c c'"
  unfolding cacheRel_def
proof
  fix k
  from assms(1) have "rel_option R (map_of c k) (map_of c' k)"
    unfolding cacheRel_def by blast
  then show "rel_option S (map_of c k) (map_of c' k)"
    by (cases "map_of c k"; cases "map_of c' k") (auto intro: assms(2))
qed

lemma cacheRel_SomeD: "cacheRel R c c' \<Longrightarrow> map_of c k = Some i \<Longrightarrow> \<exists>i'. map_of c' k = Some i' \<and> R i i'"
  unfolding cacheRel_def by (metis option.rel_distinct(2) option.rel_inject(2) option.exhaust)

lemma cacheRel_SomeD2: "cacheRel R c c' \<Longrightarrow> map_of c' k = Some i' \<Longrightarrow> \<exists>i. map_of c k = Some i \<and> R i i'"
  unfolding cacheRel_def by (metis option.rel_distinct(1) option.rel_inject(2) option.exhaust)

lemma cacheRel_NoneD: "cacheRel R c c' \<Longrightarrow> map_of c k = None \<longleftrightarrow> map_of c' k = None"
  unfolding cacheRel_def by (metis option.rel_distinct(1,2) option.exhaust)

lemma statusOnly_iff:
  "statusOnly i i' \<longleftrightarrow>
     ClaimUID i' = ClaimUID i \<and> ClaimName i' = ClaimName i \<and> Namespace i' = Namespace i \<and>
     DriverName i' = DriverName i \<and> ResourceHandles i' = ResourceHandles i \<and>
     PodUIDs i' = PodUIDs i \<and> (prepared i \<longrightarrow> prepared i')"
  unfolding statusOnly_def by (cases i; cases i') auto

lemma devicesOnly_iff:
  "devicesOnly i i' \<longleftrightarrow>
     ClaimUID i' = ClaimUID i \<and> ClaimName i' = ClaimName i \<and> Namespace i' = Namespace i \<and>
     DriverName i' = DriverName i \<and> ResourceHandles i' = ResourceHandles i \<and>
     PodUIDs i' = PodUIDs i \<and> prepared i' = prepared i"
  unfolding devicesOnly_def by (cases i; cases i') auto

lemma preparedOnly_iff:
  "preparedOnly i i' \<longleftrightarrow>
     ClaimUID i' = ClaimUID i \<and> ClaimName i' = ClaimName i \<and> Namespace i' = Namespace i \<and>
     DriverName i' = DriverName i \<and> ResourceHandles i' = ResourceHandles i \<and>
     PodUIDs i' = PodUIDs i \<and> CDIDevices i' = CDIDevices i \<and> annotations i' = annotations i \<and>
     (prepared i \<longrightarrow> prepared i')"
  unfolding preparedOnly_def by (cases i; cases i') auto

lemma statusOnly_refl: "statusOnly i i" by (simp add: statusOnly_iff)

lemma statusOnly_trans: "statusOnly x y \<Longrightarrow> statusOnly y z \<Longrightarrow> statusOnly x z"
  by (simp add: statusOnly_iff)

lemma devicesOnly_statusOnly: "devicesOnly i i' \<Longrightarrow> statusOnly i i'"
  by (simp add: statusOnly_iff devicesOnly_iff)

lemma preparedOnly_statusOnly: "preparedOnly i i' \<Longrightarrow> statusOnly i i'"
  by (simp add: statusOnly_iff preparedOnly_iff)

lemma devicesOnly_refl: "devicesOnly i i"
  by (simp add: devicesOnly_iff)

lemma devicesOnly_trans: "devicesOnly x y \<Longrightarrow> devicesOnly y z \<Longrightarrow> devicesOnly x z"
  unfolding devicesOnly_def by (cases x; cases y; cases z) auto

lemma preparedOnly_refl: "preparedOnly i i"
  by (simp add: preparedOnly_iff)

lemma preparedOnly_trans: "preparedOnly x y \<Longrightarrow> preparedOnly y z \<Longrightarrow> preparedOnly x z"
  unfolding preparedOnly_def by (cases x; cases y; cases z) auto

subsection \<open>The first loop of PrepareResources\<close>

lemma addPodReference_idem [simp]:
  "addPodReference (addPodReference i uid) uid = addPodReference i uid"
  by (simp add: addPodReference_def)

lemma deletePodReference_idem [simp]:
  "deletePodReference (deletePodReference i uid) uid = deletePodReference i uid"
  by (simp add: deletePodReference_def)

lemma newClaimInfoFromClaim_simps [simp]:
  "ClaimUID (newClaimInfoFromClaim rc) = rc_UID rc"
  "ClaimName (newClaimInfoFromClaim rc) = rc_Name rc"
  "Namespace (newClaimInfoFromClaim rc) = rc_Namespace rc"
  "DriverName (newClaimInfoFromClaim rc) = rc_DriverName rc"
  "ResourceHandles (newClaimInfoFromClaim rc) = rc_ResourceHandles rc"
  "PodUIDs (newClaimInfoFromClaim rc) = {}"
  "prepared (newClaimInfoFromClaim rc) = False"
  by (simp_all add: newClaimInfoFromClaim_def)

lemma map_of_prepareLocked:
  "map_of (pa_cache (prepareLocked pod rc a)) =
     (map_of (pa_cache a))(claimKey rc \<mapsto>
        addPodReference (case map_of (pa_cache a) (claimKey rc) of
                           Some i \<Rightarrow> i | None \<Rightarrow> newClaimInfoFromClaim rc) (p_UID pod))"
  by (auto simp: prepareLocked_def Let_def cache_get_def claimKey_def map_of_cache_store
        map_of_cache_add split: option.splits)

lemma pa_deferred_prepareLocked [simp]:
  "pa_deferred (prepareLocked pod rc a) = pa_deferred a"
  by (simp add: prepareLocked_def Let_def)

lemma prepareAdds_refl: "prepareAdds uid {} c c"
  by (auto simp: prepareAdds_def split: option.splits)

lemma prepareAdds_step:
  assumes "prepareAdds uid K c0 c" and "map_of c' = (map_of c)(claimKey rc \<mapsto>
        addPodReference (case map_of c (claimKey rc) of
                           Some i \<Rightarrow> i | None \<Rightarrow> newClaimInfoFromClaim rc) uid)"
  shows "prepareAdds uid (insert (claimKey rc) K) c0 c'"
  unfolding prepareAdds_def
proof
  fix k
  from assms(1) have h: "case map_of c0 k of
            Some i \<Rightarrow> map_of c k = Some (if k \<in> K then addPodReference i uid else i)
          | None \<Rightarrow>
              if k \<in> K
              then (\<exists>rc. claimKey rc = k \<and>
                         map_of c k = Some (addPodReference (newClaimInfoFromClaim rc) uid))
              else map_of c k = None"
    unfolding prepareAdds_def by blast
  show "case map_of c0 k of
            Some i \<Rightarrow> map_of c' k = Some (if k \<in> insert (claimKey rc) K then addPodReference i uid else i)
          | None \<Rightarrow>
              if k \<in> insert (claimKey rc) K
              then (\<exists>rc. claimKey rc = k \<and>
                         map_of c' k = Some (addPodReference (newClaimInfoFromClaim rc) uid))
              else map_of c' k = None"
    using h by (cases "k = claimKey rc") (auto simp: assms(2) split: option.splits if_splits)
qed

lemma prepareClaims_adds:
  "prepareClaims env pod pcs a = (e, a') \<Longrightarrow>
   prepareAdds (p_UID pod) (claimKey ` set (pa_deferred a)) c0 (pa_cache a) \<Longrightarrow>
   prepareAdds (p_UID pod) (claimKey ` set (pa_deferred a')) c0 (pa_cache a')"
proof (induction pcs arbitrary: a)
  case Nil
  then show ?case by simp
next
  case (Cons pc pcs)
  show ?case
  proof (cases "resolveClaimName env pod pc")
    case (Inl x)
    with Cons.prems show ?thesis by auto
  next
    case (Inr r)
    obtain cn mco where r: "r = (cn, mco)" by (cases r)
    show ?thesis
    proof (cases cn)
      case None
      with Cons Inr r show ?thesis by auto
    next
      case (Some claimName)
      show ?thesis
      proof (cases "getResourceClaim env (p_Namespace pod) claimName")
        case (Inl x)
        with Cons.prems Inr r Some show ?thesis by auto
      next
        case rcq: (Inr rc)
        let ?a1 = "prepareLocked pod rc (a\<lparr>pa_deferred := rc # pa_deferred a\<rparr>)"
        have step: "prepareAdds (p_UID pod) (claimKey ` set (pa_deferred ?a1)) c0 (pa_cache ?a1)"
          using prepareAdds_step[OF Cons.prems(2), of "pa_cache ?a1" rc]
          by (simp add: map_of_prepareLocked)
        from Cons.prems(1) Inr r Some rcq
        consider "a' = a" | "prepareClaims env pod pcs a = (e, a')"
          | "prepareClaims env pod pcs ?a1 = (e, a')"
          by (auto split: option.splits if_splits)
        then show ?thesis
        proof cases
          case 1
          with Cons.prems show ?thesis by simp
        next
          case 2
          with Cons show ?thesis by blast
        next
          case 3
          from Cons.IH[OF 3 step] show ?thesis .
        qed
      qed
    qed
  qed
qed

subsection \<open>The deferred functions\<close>

lemma map_of_deferredCleanup:
  "map_of (deferredCleanup pod rc c) k =
     map_option (\<lambda>i. if k = claimKey rc then deletePodReference i (p_UID pod) else i) (map_of c k)"
  by (cases "map_of c k")
     (auto simp: deferredCleanup_def cache_get_def claimKey_def map_of_cache_store
        split: option.splits)

lemma map_of_fold_deferredCleanup:
  "map_of (fold (deferredCleanup pod) ds c) k =
     map_option (\<lambda>i. if k \<in> claimKey ` set ds then deletePodReference i (p_UID pod) else i)
       (map_of c k)"
proof (induction ds arbitrary: c)
  case Nil
  then show ?case by (simp add: option.map_ident)
next
  case (Cons d ds)
  show ?case
    by (cases "map_of c k") (auto simp: Cons.IH map_of_deferredCleanup)
qed

subsection \<open>The plugin calls of PrepareResources\<close>

lemma setCDIDevices_devicesOnly: "setCDIDevices env i p ds = Some i' \<Longrightarrow> devicesOnly i i'"
  by (auto simp: setCDIDevices_def devicesOnly_def split: option.splits)

lemma cacheRel_store_trans:
  assumes "map_of c (n, ns) = Some i" and "R i i'" and "\<And>x. R x x"
    and "\<And>x y z. R x y \<Longrightarrow> R y z \<Longrightarrow> R x z"
    and "cacheRel R (cache_store c n ns i') c'"
  shows "cacheRel R c c'"
  using cacheRel_trans[OF cacheRel_store[OF assms(1,2,3)] assms(5)] assms(4) by blast

lemma applyPrepareResults_devicesOnly:
  "applyPrepareResults env p claims rcs resp c = (e, c') \<Longrightarrow> cacheRel devicesOnly c c'"
proof (induction env p claims rcs resp c rule: applyPrepareResults.induct)
  case (1 env pluginName claims resourceClaims c)
  then show ?case by (simp add: cacheRel_refl devicesOnly_refl)
next
  case (2 env pluginName claims resourceClaims claimUID result rest c)
  have store: "cacheRel devicesOnly c c'"
    if "map_of c (rc_Name claim, rc_Namespace claim) = Some info"
      and "setCDIDevices env info pluginName (prep_CDIDevices result) = Some info'"
      and "cacheRel devicesOnly (cache_store c (rc_Name claim) (rc_Namespace claim) info') c'"
    for claim info info'
    using that(1) setCDIDevices_devicesOnly[OF that(2)] devicesOnly_refl devicesOnly_trans that(3)
    by (rule cacheRel_store_trans)
  from "2.prems" "2.IH" show ?case
    by (auto simp: cache_get_def cacheRel_refl devicesOnly_refl
          split: option.splits if_splits intro: store)
qed

lemma prepareBatches_devicesOnly:
  "prepareBatches env rcs bs c log = (e, c', log') \<Longrightarrow> cacheRel devicesOnly c c'"
proof (induction bs arbitrary: c log)
  case Nil
  then show ?case by (simp add: cacheRel_refl devicesOnly_refl)
next
  case (Cons b bs)
  obtain p claims where b: "b = (p, claims)" by (cases b)
  from Cons.prems b
  have "c' = c \<or> (\<exists>resp e1. applyPrepareResults env p claims rcs resp c = (e1, c'))
      \<or> (\<exists>resp c1. applyPrepareResults env p claims rcs resp c = (None, c1) \<and>
            prepareBatches env rcs bs c1 (log @ [PrepareCall p claims]) = (e, c', log'))"
    by (auto split: option.splits sum.splits prod.splits if_splits; blast)
  then consider "c' = c"
    | resp e1 where "applyPrepareResults env p claims rcs resp c = (e1, c')"
    | resp c1 where "applyPrepareResults env p claims rcs resp c = (None, c1)"
        "prepareBatches env rcs bs c1 (log @ [PrepareCall p claims]) = (e, c', log')"
    by blast
  then show ?case
  proof cases
    case 1
    then show ?thesis by (simp add: cacheRel_refl devicesOnly_refl)
  next
    case 2
    then show ?thesis by (rule applyPrepareResults_devicesOnly)
  next
    case 3
    from applyPrepareResults_devicesOnly[OF 3(1)] Cons.IH[OF 3(2)]
    show ?thesis using cacheRel_trans devicesOnly_trans by blast
  qed
qed

lemma markPrepared_preparedOnly:
  "markPrepared rcs c = (e, c') \<Longrightarrow> cacheRel preparedOnly c c'"
proof (induction rcs arbitrary: c)
  case Nil
  then show ?case by (simp add: cacheRel_refl preparedOnly_refl)
next
  case (Cons r rcs)
  obtain uid claim where r: "r = (uid, claim)" by (cases r)
  from Cons.prems r
  have "c' = c \<or> (\<exists>info. map_of c (rc_Name claim, rc_Namespace claim) = Some info \<and>
        markPrepared rcs (cache_store c (rc_Name claim) (rc_Namespace claim) (setPrepared info)) = (e, c'))"
    by (auto simp: cache_get_def split: option.splits; blast)
  then consider "c' = c"
    | info where "map_of c (rc_Name claim, rc_Namespace claim) = Some info"
        "markPrepared rcs (cache_store c (rc_Name claim) (rc_Namespace claim) (setPrepared info)) = (e, c')"
    by blast
  then show ?case
  proof cases
    case 1
    then show ?thesis by (simp add: cacheRel_refl preparedOnly_refl)
  next
    case 2
    have "preparedOnly info (setPrepared info)"
      by (simp add: preparedOnly_def setPrepared_def)
    then have "cacheRel preparedOnly c
        (cache_store c (rc_Name claim) (rc_Namespace claim) (setPrepared info))"
      using 2(1) by (intro cacheRel_store preparedOnly_refl)
    with Cons.IH[OF 2(2)] show ?thesis
      using cacheRel_trans preparedOnly_trans by blast
  qed
qed


subsection \<open>The five ways PrepareResources returns\<close>

lemma PrepareResources_cases [case_names claims_failed batches_failed mark_failed checkpoint_failed succeeded]:
  obtains
    (claims_failed) e a where
      "prepareClaims env pod (p_ResourceClaims pod) (initPrepareAcc m) = (Some e, a)"
      "PrepareResources env pod m =
         (Some e, m\<lparr>cache := runDeferred pod (Some e) (pa_deferred a) (pa_cache a)\<rparr>)"
  | (batches_failed) e a c log where
      "prepareClaims env pod (p_ResourceClaims pod) (initPrepareAcc m) = (None, a)"
      "prepareBatches env (pa_resourceClaims a) (orderBatches env (pa_batches a)) (pa_cache a) (rpcs m)
         = (Some e, c, log)"
      "PrepareResources env pod m =
         (Some e, m\<lparr>cache := runDeferred pod (Some e) (pa_deferred a) c, rpcs := log\<rparr>)"
  | (mark_failed) e a c log c' where
      "prepareClaims env pod (p_ResourceClaims pod) (initPrepareAcc m) = (None, a)"
      "prepareBatches env (pa_resourceClaims a) (orderBatches env (pa_batches a)) (pa_cache a) (rpcs m)
         = (None, c, log)"
      "markPrepared (orderClaims env (pa_resourceClaims a)) c = (Some e, c')"
      "PrepareResources env pod m =
         (Some e, m\<lparr>cache := runDeferred pod (Some e) (pa_deferred a) c', rpcs := log\<rparr>)"
  | (checkpoint_failed) a c log c' where
      "prepareClaims env pod (p_ResourceClaims pod) (initPrepareAcc m) = (None, a)"
      "prepareBatches env (pa_resourceClaims a) (orderBatches env (pa_batches a)) (pa_cache a) (rpcs m)
         = (None, c, log)"
      "markPrepared (orderClaims env (pa_resourceClaims a)) c = (None, c')"
      "\<not> writeCheckpoint env c'"
      "PrepareResources env pod m =
         (Some ErrCheckpoint,
          m\<lparr>cache := runDeferred pod (Some ErrCheckpoint) (pa_deferred a) c', rpcs := log\<rparr>)"
  | (succeeded) a c log c' where
      "prepareClaims env pod (p_ResourceClaims pod) (initPrepareAcc m) = (None, a)"
      "prepareBatches env (pa_resourceClaims a) (orderBatches env (pa_batches a)) (pa_cache a) (rpcs m)
         = (None, c, log)"
      "markPrepared (orderClaims env (pa_resourceClaims a)) c = (None, c')"
      "writeCheckpoint env c'"
      "PrepareResources env pod m = (None, \<lparr>cache = c', checkpoint = c', rpcs = log\<rparr>)"
proof -
  obtain e1 a where p1: "prepareClaims env pod (p_ResourceClaims pod) (initPrepareAcc m) = (e1, a)"
    by (cases "prepareClaims env pod (p_ResourceClaims pod) (initPrepareAcc m)")
  obtain e2 c log where p2:
    "prepareBatches env (pa_resourceClaims a) (orderBatches env (pa_batches a)) (pa_cache a) (rpcs m)
       = (e2, c, log)"
    by (cases "prepareBatches env (pa_resourceClaims a) (orderBatches env (pa_batches a)) (pa_cache a) (rpcs m)")
  obtain e3 c' where p3: "markPrepared (orderClaims env (pa_resourceClaims a)) c = (e3, c')"
    by (cases "markPrepared (orderClaims env (pa_resourceClaims a)) c")
  show thesis
  proof (cases e1)
    case (Some e)
    with p1 show ?thesis by (intro claims_failed[of e a]) (simp_all add: PrepareResources_def)
  next
    case n1: None
    show ?thesis
    proof (cases e2)
      case (Some e)
      with p1 p2 n1 show ?thesis
        by (intro batches_failed[of a e c log]) (simp_all add: PrepareResources_def)
    next
      case n2: None
      show ?thesis
      proof (cases e3)
        case (Some e)
        with p1 p2 p3 n1 n2 show ?thesis
          by (intro mark_failed[of a c log e c']) (simp_all add: PrepareResources_def)
      next
        case n3: None
        show ?thesis
        proof (cases "writeCheckpoint env c'")
          case True
          with p1 p2 p3 n1 n2 n3 show ?thesis
            by (intro succeeded[of a c log c']) (simp_all add: PrepareResources_def)
        next
          case False
          with p1 p2 p3 n1 n2 n3 show ?thesis
            by (intro checkpoint_failed[of a c log c']) (simp_all add: PrepareResources_def)
        qed
      qed
    qed
  qed
qed


subsection \<open>The cache PrepareResources leaves behind\<close>

lemma prepareClaims_adds_init:
  assumes "prepareClaims env pod pcs (initPrepareAcc m) = (e, a)"
  shows "prepareAdds (p_UID pod) (claimKey ` set (pa_deferred a)) (cache m) (pa_cache a)"
  using prepareClaims_adds[OF assms, of "cache m"] prepareAdds_refl[of "p_UID pod" "cache m"]
  by (simp add: initPrepareAcc_def)

lemma prepareAdds_SomeD:
  assumes "prepareAdds uid K c c'" and "map_of c k = Some i"
  shows "map_of c' k = Some (if k \<in> K then addPodReference i uid else i)"
proof -
  from assms(1) have "case map_of c k of
            Some i \<Rightarrow> map_of c' k = Some (if k \<in> K then addPodReference i uid else i)
          | None \<Rightarrow>
              if k \<in> K
              then (\<exists>rc. claimKey rc = k \<and>
                         map_of c' k = Some (addPodReference (newClaimInfoFromClaim rc) uid))
              else map_of c' k = None"
    unfolding prepareAdds_def by blast
  with assms(2) show ?thesis by simp
qed

lemma prepareAdds_NoneD:
  assumes "prepareAdds uid K c c'" and "map_of c k = None"
  shows "if k \<in> K
         then (\<exists>rc. claimKey rc = k \<and>
                 map_of c' k = Some (addPodReference (newClaimInfoFromClaim rc) uid))
         else map_of c' k = None"
proof -
  from assms(1) have "case map_of c k of
            Some i \<Rightarrow> map_of c' k = Some (if k \<in> K then addPodReference i uid else i)
          | None \<Rightarrow>
              if k \<in> K
              then (\<exists>rc. claimKey rc = k \<and>
                         map_of c' k = Some (addPodReference (newClaimInfoFromClaim rc) uid))
              else map_of c' k = None"
    unfolding prepareAdds_def by blast
  with assms(2) show ?thesis by simp
qed

lemma addPodReference_simps [simp]:
  "ClaimUID (addPodReference i uid) = ClaimUID i"
  "ClaimName (addPodReference i uid) = ClaimName i"
  "Namespace (addPodReference i uid) = Namespace i"
  "DriverName (addPodReference i uid) = DriverName i"
  "ResourceHandles (addPodReference i uid) = ResourceHandles i"
  "PodUIDs (addPodReference i uid) = insert uid (PodUIDs i)"
  "prepared (addPodReference i uid) = prepared i"
  by (simp_all add: addPodReference_def)

lemma deletePodReference_simps [simp]:
  "ClaimUID (deletePodReference i uid) = ClaimUID i"
  "ClaimName (deletePodReference i uid) = ClaimName i"
  "Namespace (deletePodReference i uid) = Namespace i"
  "DriverName (deletePodReference i uid) = DriverName i"
  "ResourceHandles (deletePodReference i uid) = ResourceHandles i"
  "PodUIDs (deletePodReference i uid) = PodUIDs i - {uid}"
  "prepared (deletePodReference i uid) = prepared i"
  by (simp_all add: deletePodReference_def)

lemma prepareAdds_prepared:
  assumes "prepareAdds uid K c c'" and "map_of c' k = Some i'" and "prepared i'"
  shows "\<exists>i. map_of c k = Some i \<and> prepared i"
proof (cases "map_of c k")
  case None
  from prepareAdds_NoneD[OF assms(1) None] assms(2,3) show ?thesis
    by (auto split: if_splits)
next
  case (Some i)
  from prepareAdds_SomeD[OF assms(1) Some] assms(2,3) show ?thesis
    using Some by (auto split: if_splits)
qed

lemma prepareAdds_refs:
  assumes "prepareAdds uid K c c'"
  shows "map_option PodUIDs (map_of c' k) =
     (if k \<in> K then Some (insert uid (case map_of c k of Some i \<Rightarrow> PodUIDs i | None \<Rightarrow> {}))
      else map_option PodUIDs (map_of c k))"
proof (cases "map_of c k")
  case None
  from prepareAdds_NoneD[OF assms None] show ?thesis
    using None by (auto split: if_splits)
next
  case (Some i)
  from prepareAdds_SomeD[OF assms Some] show ?thesis
    using Some by (auto split: if_splits)
qed

lemma cacheRel_statusOnly_refs:
  assumes "cacheRel statusOnly c c'"
  shows "map_option PodUIDs (map_of c' k) = map_option PodUIDs (map_of c k)"
proof (cases "map_of c k")
  case None
  with cacheRel_NoneD[OF assms, of k] show ?thesis by simp
next
  case (Some i)
  with cacheRel_SomeD[OF assms Some] show ?thesis by (auto simp: statusOnly_iff)
qed

lemma PrepareResources_shape:
  assumes "PrepareResources env pod m = (r, m')"
  obtains e1 a c2 where
    "prepareClaims env pod (p_ResourceClaims pod) (initPrepareAcc m) = (e1, a)"
    "cacheRel statusOnly (pa_cache a) c2"
    "cache m' = runDeferred pod r (pa_deferred a) c2"
proof (cases env pod m rule: PrepareResources_cases)
  case (claims_failed e' a)
  with assms have "cache m' = runDeferred pod r (pa_deferred a) (pa_cache a)"
    by auto
  with claims_failed(1) show ?thesis
    by (intro that[of "Some e'" a "pa_cache a"]) (simp_all add: cacheRel_refl statusOnly_refl)
next
  case (batches_failed e' a c log)
  with assms have "cache m' = runDeferred pod r (pa_deferred a) c"
    by auto
  moreover have "cacheRel statusOnly (pa_cache a) c"
    using prepareBatches_devicesOnly[OF batches_failed(2)] devicesOnly_statusOnly
    by (rule cacheRel_mono)
  ultimately show ?thesis using batches_failed(1) by (intro that[of None a c])
next
  case (mark_failed e' a c log c')
  with assms have "cache m' = runDeferred pod r (pa_deferred a) c'"
    by auto
  moreover have "cacheRel statusOnly (pa_cache a) c"
    using prepareBatches_devicesOnly[OF mark_failed(2)] devicesOnly_statusOnly
    by (rule cacheRel_mono)
  moreover have "cacheRel statusOnly c c'"
    using markPrepared_preparedOnly[OF mark_failed(3)] preparedOnly_statusOnly
    by (rule cacheRel_mono)
  ultimately show ?thesis using mark_failed(1) cacheRel_trans statusOnly_trans
    by (intro that[of None a c']) blast+
next
  case (checkpoint_failed a c log c')
  with assms have "cache m' = runDeferred pod r (pa_deferred a) c'"
    by auto
  moreover have "cacheRel statusOnly (pa_cache a) c"
    using prepareBatches_devicesOnly[OF checkpoint_failed(2)] devicesOnly_statusOnly
    by (rule cacheRel_mono)
  moreover have "cacheRel statusOnly c c'"
    using markPrepared_preparedOnly[OF checkpoint_failed(3)] preparedOnly_statusOnly
    by (rule cacheRel_mono)
  ultimately show ?thesis using checkpoint_failed(1) cacheRel_trans statusOnly_trans
    by (intro that[of None a c']) blast+
next
  case (succeeded a c log c')
  with assms have "cache m' = runDeferred pod r (pa_deferred a) c'"
    by (auto simp: runDeferred_def)
  moreover have "cacheRel statusOnly (pa_cache a) c"
    using prepareBatches_devicesOnly[OF succeeded(2)] devicesOnly_statusOnly
    by (rule cacheRel_mono)
  moreover have "cacheRel statusOnly c c'"
    using markPrepared_preparedOnly[OF succeeded(3)] preparedOnly_statusOnly
    by (rule cacheRel_mono)
  ultimately show ?thesis using succeeded(1) cacheRel_trans statusOnly_trans
    by (intro that[of None a c']) blast+
qed

lemma PrepareResources_error_shape:
  assumes "PrepareResources env pod m = (Some e, m')" and "e \<noteq> NilPointerPanic"
  obtains e1 a c2 where
    "prepareClaims env pod (p_ResourceClaims pod) (initPrepareAcc m) = (e1, a)"
    "cacheRel statusOnly (pa_cache a) c2"
    "cache m' = fold (deferredCleanup pod) (pa_deferred a) c2"
proof -
  from assms(1) obtain e1 a c2 where
    "prepareClaims env pod (p_ResourceClaims pod) (initPrepareAcc m) = (e1, a)"
    "cacheRel statusOnly (pa_cache a) c2"
    "cache m' = runDeferred pod (Some e) (pa_deferred a) c2"
    by (rule PrepareResources_shape)
  with assms(2) show ?thesis
    by (intro that[of e1 a c2]) (simp_all add: runDeferred_def)
qed

lemma PrepareResources_error_refs:
  assumes "PrepareResources env pod m = (Some e, m')" and "e \<noteq> NilPointerPanic"
    and "prepareClaims env pod (p_ResourceClaims pod) (initPrepareAcc m) = (e1, a)"
  shows "map_option PodUIDs (map_of (cache m') k) =
     (if k \<in> claimKey ` set (pa_deferred a)
      then Some ((case map_of (cache m) k of Some i \<Rightarrow> PodUIDs i | None \<Rightarrow> {}) - {p_UID pod})
      else map_option PodUIDs (map_of (cache m) k))"
proof -
  from assms(1,2) obtain e1' a' c2 where sh:
    "prepareClaims env pod (p_ResourceClaims pod) (initPrepareAcc m) = (e1', a')"
    "cacheRel statusOnly (pa_cache a') c2"
    "cache m' = fold (deferredCleanup pod) (pa_deferred a') c2"
    by (rule PrepareResources_error_shape)
  with assms(3) have a': "a' = a" by simp
  have r1: "map_option PodUIDs (map_of (pa_cache a) k) =
     (if k \<in> claimKey ` set (pa_deferred a)
      then Some (insert (p_UID pod) (case map_of (cache m) k of Some i \<Rightarrow> PodUIDs i | None \<Rightarrow> {}))
      else map_option PodUIDs (map_of (cache m) k))"
    using prepareAdds_refs[OF prepareClaims_adds_init[OF assms(3)]] .
  have r2: "map_option PodUIDs (map_of c2 k) = map_option PodUIDs (map_of (pa_cache a) k)"
    using cacheRel_statusOnly_refs sh(2) a' by blast
  have r3: "map_option PodUIDs (map_of (cache m') k) =
      map_option (\<lambda>P. if k \<in> claimKey ` set (pa_deferred a) then P - {p_UID pod} else P)
        (map_option PodUIDs (map_of c2 k))"
    unfolding sh(3) a' map_of_fold_deferredCleanup
    by (cases "map_of c2 k") auto
  show ?thesis unfolding r3 r2 r1
    by (cases "map_of (cache m) k") auto
qed


subsection \<open>The checks of the first loop\<close>

lemma prepareClaims_error_not_panic:
  "prepareClaims env pod pcs a = (Some e, a') \<Longrightarrow> e \<noteq> NilPointerPanic"
  by (induction env pod pcs a rule: prepareClaims.induct)
     (auto split: sum.splits option.splits if_splits prod.splits)

lemma prepareClaims_not_reserved:
  assumes "podClaim \<in> set pcs"
    and "resolveClaimName env pod podClaim = Inr (Some claimName, mustCheckOwner)"
    and "getResourceClaim env (p_Namespace pod) claimName = Inr resourceClaim"
    and "\<not> IsReservedForPod pod resourceClaim"
  shows "fst (prepareClaims env pod pcs a) \<noteq> None"
  using assms(1)
proof (induction pcs arbitrary: a)
  case Nil
  then show ?case by simp
next
  case (Cons pc pcs)
  show ?case
  proof (cases "pc = podClaim")
    case True
    with assms(2,3,4) show ?thesis by (auto split: option.splits)
  next
    case False
    with Cons have "\<And>a. fst (prepareClaims env pod pcs a) \<noteq> None" by simp
    then show ?thesis
      by (auto split: sum.splits option.splits prod.splits)
  qed
qed


subsection \<open>A response that leaves claims out\<close>

lemma prepareBatches_incomplete:
  assumes "(p, claims) \<in> set bs"
    and "nodePrepareResources env p claims = Inr resp"
    and "length resp \<noteq> length claims"
  shows "fst (prepareBatches env rcs bs c log) \<noteq> None"
  using assms(1)
proof (induction bs arbitrary: c log)
  case Nil
  then show ?case by simp
next
  case (Cons b bs)
  show ?case
  proof (cases "b = (p, claims)")
    case True
    with assms(2,3) show ?thesis
      by (auto split: option.splits prod.splits)
  next
    case False
    with Cons have "\<And>c log. fst (prepareBatches env rcs bs c log) \<noteq> None" by simp
    then show ?thesis
      by (cases b) (auto split: option.splits sum.splits prod.splits)
  qed
qed


section \<open>How the phases of UnprepareResources change the cache\<close>

lemma refDropped_refl: "refDropped uid i i"
  by (simp add: refDropped_def)

lemma refDropped_trans: "refDropped uid x y \<Longrightarrow> refDropped uid y z \<Longrightarrow> refDropped uid x z"
  by (auto simp: refDropped_def)

lemma refDropped_prepared: "refDropped uid i i' \<Longrightarrow> prepared i' = prepared i"
  by (auto simp: refDropped_def)

lemma unprepareLocked_refDropped:
  "cacheRel (refDropped (p_UID pod)) (ua_cache a) (ua_cache (unprepareLocked pod claimName a))"
proof (cases "map_of (ua_cache a) (claimName, p_Namespace pod)")
  case None
  then show ?thesis
    by (simp add: unprepareLocked_def cache_get_def cacheRel_refl refDropped_refl)
next
  case (Some i)
  have "refDropped (p_UID pod) i (deletePodReference i (p_UID pod))"
    by (simp add: refDropped_def)
  with Some have "cacheRel (refDropped (p_UID pod)) (ua_cache a)
          (cache_store (ua_cache a) claimName (p_Namespace pod) (deletePodReference i (p_UID pod)))"
    using refDropped_refl by (rule cacheRel_store)
  with Some show ?thesis
    by (simp add: unprepareLocked_def cache_get_def cacheRel_refl refDropped_refl)
qed

lemma unprepareClaims_refDropped:
  "unprepareClaims env pod pcs a = (e, a') \<Longrightarrow>
   cacheRel (refDropped (p_UID pod)) (ua_cache a) (ua_cache a')"
proof (induction pcs arbitrary: a)
  case Nil
  then show ?case by (simp add: cacheRel_refl refDropped_refl)
next
  case (Cons pc pcs)
  from Cons.prems
  have "a' = a \<or> unprepareClaims env pod pcs a = (e, a')
      \<or> (\<exists>claimName. unprepareClaims env pod pcs (unprepareLocked pod claimName a) = (e, a'))"
    by (auto split: sum.splits option.splits prod.splits)
  then consider "a' = a" | "unprepareClaims env pod pcs a = (e, a')"
    | claimName where "unprepareClaims env pod pcs (unprepareLocked pod claimName a) = (e, a')"
    by blast
  then show ?case
  proof cases
    case 1
    then show ?thesis by (simp add: cacheRel_refl refDropped_refl)
  next
    case 2
    then show ?thesis by (rule Cons.IH)
  next
    case 3
    from cacheRel_trans[OF unprepareLocked_refDropped Cons.IH[OF 3]] refDropped_trans
    show ?thesis by blast
  qed
qed

lemma map_le_cache_delete: "map_of (cache_delete c n ns) \<subseteq>\<^sub>m map_of c"
  by (simp add: map_le_def map_of_cache_delete)

lemma applyUnprepareResults_map_le:
  "applyUnprepareResults pod claims names resp c = (e, c') \<Longrightarrow> map_of c' \<subseteq>\<^sub>m map_of c"
proof (induction resp arbitrary: c)
  case Nil
  then show ?case by simp
next
  case (Cons r resp)
  obtain uid result where r: "r = (uid, result)" by (cases r)
  from Cons.prems r
  have "c' = c \<or> (\<exists>n. applyUnprepareResults pod claims names resp
                          (cache_delete c n (p_Namespace pod)) = (e, c'))"
    by (auto split: option.splits if_splits)
  then consider "c' = c"
    | n where "applyUnprepareResults pod claims names resp (cache_delete c n (p_Namespace pod)) = (e, c')"
    by blast
  then show ?case
  proof cases
    case 1
    then show ?thesis by simp
  next
    case 2
    from Cons.IH[OF 2] map_le_cache_delete show ?thesis by (rule map_le_trans)
  qed
qed

lemma applyUnprepareResults_deleted:
  "applyUnprepareResults pod claims names resp c = (None, c') \<Longrightarrow> (claimUID, result) \<in> set resp \<Longrightarrow>
   map_of c' (case map_of names claimUID of None \<Rightarrow> [] | Some n \<Rightarrow> n, p_Namespace pod) = None"
proof (induction resp arbitrary: c)
  case Nil
  then show ?case by simp
next
  case (Cons r resp)
  obtain uid res where r: "r = (uid, res)" by (cases r)
  let ?c1 = "cache_delete c (case map_of names uid of None \<Rightarrow> [] | Some n \<Rightarrow> n) (p_Namespace pod)"
  from Cons.prems(1) r have run: "applyUnprepareResults pod claims names resp ?c1 = (None, c')"
    by (auto split: option.splits if_splits)
  show ?case
  proof (cases "(claimUID, result) \<in> set resp")
    case True
    with Cons.IH run show ?thesis by blast
  next
    case False
    with Cons.prems(2) r have eq: "claimUID = uid" by simp
    have "map_of c' \<subseteq>\<^sub>m map_of ?c1"
      using run by (rule applyUnprepareResults_map_le)
    moreover have "map_of ?c1 (case map_of names uid of None \<Rightarrow> [] | Some n \<Rightarrow> n, p_Namespace pod) = None"
      by (simp add: map_of_cache_delete)
    ultimately show ?thesis unfolding eq
      by (metis domIff map_le_def)
  qed
qed

lemma unprepareBatches_map_le:
  "unprepareBatches env pod names bs c log = (e, c', log') \<Longrightarrow> map_of c' \<subseteq>\<^sub>m map_of c"
proof (induction bs arbitrary: c log)
  case Nil
  then show ?case by simp
next
  case (Cons b bs)
  obtain p claims where b: "b = (p, claims)" by (cases b)
  from Cons.prems b
  have "c' = c \<or> (\<exists>resp e1. applyUnprepareResults pod claims names resp c = (e1, c'))
      \<or> (\<exists>resp c1. applyUnprepareResults pod claims names resp c = (None, c1) \<and>
            unprepareBatches env pod names bs c1 (log @ [UnprepareCall p claims]) = (e, c', log'))"
    by (auto split: option.splits sum.splits prod.splits if_splits; blast)
  then consider "c' = c"
    | resp e1 where "applyUnprepareResults pod claims names resp c = (e1, c')"
    | resp c1 where "applyUnprepareResults pod claims names resp c = (None, c1)"
        "unprepareBatches env pod names bs c1 (log @ [UnprepareCall p claims]) = (e, c', log')"
    by blast
  then show ?case
  proof cases
    case 1
    then show ?thesis by simp
  next
    case 2
    then show ?thesis by (rule applyUnprepareResults_map_le)
  next
    case 3
    from Cons.IH[OF 3(2)] applyUnprepareResults_map_le[OF 3(1)] show ?thesis
      by (rule map_le_trans)
  qed
qed

lemma unprepareBatches_deleted:
  "unprepareBatches env pod names bs c log = (None, c', log') \<Longrightarrow> (p, claims) \<in> set bs \<Longrightarrow>
   nodeUnprepareResources env p claims = Inr resp \<Longrightarrow> (claimUID, result) \<in> set resp \<Longrightarrow>
   map_of c' (case map_of names claimUID of None \<Rightarrow> [] | Some n \<Rightarrow> n, p_Namespace pod) = None"
proof (induction bs arbitrary: c log)
  case Nil
  then show ?case by simp
next
  case (Cons b bs)
  obtain pluginName cls where b: "b = (pluginName, cls)" by (cases b)
  from Cons.prems(1) b obtain response c1 where
    r: "nodeUnprepareResources env pluginName cls = Inr response"
    and ap: "applyUnprepareResults pod cls names response c = (None, c1)"
    and run: "unprepareBatches env pod names bs c1 (log @ [UnprepareCall pluginName cls]) = (None, c', log')"
    by (auto split: option.splits sum.splits prod.splits if_splits)
  show ?case
  proof (cases "(p, claims) \<in> set bs")
    case True
    from Cons.IH[OF run True Cons.prems(3,4)] show ?thesis .
  next
    case False
    with Cons.prems(2) b have "p = pluginName" "claims = cls" by auto
    with r Cons.prems(3) have "resp = response" by simp
    with ap Cons.prems(4) have
      "map_of c1 (case map_of names claimUID of None \<Rightarrow> [] | Some n \<Rightarrow> n, p_Namespace pod) = None"
      using applyUnprepareResults_deleted by blast
    moreover have "map_of c' \<subseteq>\<^sub>m map_of c1"
      using run by (rule unprepareBatches_map_le)
    ultimately show ?thesis by (metis domIff map_le_def)
  qed
qed


subsection \<open>The four ways UnprepareResources returns\<close>

lemma UnprepareResources_cases [case_names claims_failed batches_failed checkpoint_failed succeeded]:
  obtains
    (claims_failed) e a where
      "unprepareClaims env pod (p_ResourceClaims pod) (initUnprepareAcc m) = (Some e, a)"
      "UnprepareResources env pod m = (Some e, m\<lparr>cache := ua_cache a\<rparr>)"
  | (batches_failed) e a c log where
      "unprepareClaims env pod (p_ResourceClaims pod) (initUnprepareAcc m) = (None, a)"
      "unprepareBatches env pod (ua_claimNames a) (orderBatches env (ua_batches a)) (ua_cache a) (rpcs m)
         = (Some e, c, log)"
      "UnprepareResources env pod m = (Some e, m\<lparr>cache := c, rpcs := log\<rparr>)"
  | (checkpoint_failed) a c log where
      "unprepareClaims env pod (p_ResourceClaims pod) (initUnprepareAcc m) = (None, a)"
      "unprepareBatches env pod (ua_claimNames a) (orderBatches env (ua_batches a)) (ua_cache a) (rpcs m)
         = (None, c, log)"
      "\<not> writeCheckpoint env c"
      "UnprepareResources env pod m = (Some ErrCheckpoint, m\<lparr>cache := c, rpcs := log\<rparr>)"
  | (succeeded) a c log where
      "unprepareClaims env pod (p_ResourceClaims pod) (initUnprepareAcc m) = (None, a)"
      "unprepareBatches env pod (ua_claimNames a) (orderBatches env (ua_batches a)) (ua_cache a) (rpcs m)
         = (None, c, log)"
      "writeCheckpoint env c"
      "UnprepareResources env pod m = (None, \<lparr>cache = c, checkpoint = c, rpcs = log\<rparr>)"
proof -
  obtain e1 a where p1: "unprepareClaims env pod (p_ResourceClaims pod) (initUnprepareAcc m) = (e1, a)"
    by (cases "unprepareClaims env pod (p_ResourceClaims pod) (initUnprepareAcc m)")
  obtain e2 c log where p2:
    "unprepareBatches env pod (ua_claimNames a) (orderBatches env (ua_batches a)) (ua_cache a) (rpcs m)
       = (e2, c, log)"
    by (cases "unprepareBatches env pod (ua_claimNames a) (orderBatches env (ua_batches a)) (ua_cache a) (rpcs m)")
  show thesis
  proof (cases e1)
    case (Some e)
    with p1 show ?thesis by (intro claims_failed[of e a]) (simp_all add: UnprepareResources_def)
  next
    case n1: None
    show ?thesis
    proof (cases e2)
      case (Some e)
      with p1 p2 n1 show ?thesis
        by (intro batches_failed[of a e c log]) (simp_all add: UnprepareResources_def)
    next
      case n2: None
      show ?thesis
      proof (cases "writeCheckpoint env c")
        case True
        with p1 p2 n1 n2 show ?thesis
          by (intro succeeded[of a c log]) (simp_all add: UnprepareResources_def)
      next
        case False
        with p1 p2 n1 n2 show ?thesis
          by (intro checkpoint_failed[of a c log]) (simp_all add: UnprepareResources_def)
      qed
    qed
  qed
qed

lemma unprepareClaims_error_not_checkpoint:
  "unprepareClaims env pod pcs a \<noteq> (Some ErrCheckpoint, a')"
  by (induction pcs arbitrary: a) (auto split: sum.splits option.splits prod.splits)

lemma applyUnprepareResults_error_not_checkpoint:
  "applyUnprepareResults pod claims names resp c \<noteq> (Some ErrCheckpoint, c')"
  by (induction resp arbitrary: c) (auto split: option.splits if_splits)

lemma unprepareBatches_error_not_checkpoint:
  "unprepareBatches env pod names bs c log \<noteq> (Some ErrCheckpoint, c', log')"
  by (induction bs arbitrary: c log)
     (auto simp: applyUnprepareResults_error_not_checkpoint
        split: option.splits sum.splits prod.splits if_splits)

lemma set_orderBatches [simp]: "set (orderBatches env bs) = set bs"
  by (simp add: orderBatches_def)

lemma set_orderClaims [simp]: "set (orderClaims env rcs) = set rcs"
  by (simp add: orderClaims_def)

lemma UnprepareResources_shape:
  assumes "UnprepareResources env pod m = (r, m')"
  obtains e1 a where
    "unprepareClaims env pod (p_ResourceClaims pod) (initUnprepareAcc m) = (e1, a)"
    "map_of (cache m') \<subseteq>\<^sub>m map_of (ua_cache a)"
proof (cases env pod m rule: UnprepareResources_cases)
  case (claims_failed e a)
  with assms show ?thesis by (intro that[of "Some e" a]) auto
next
  case (batches_failed e a c log)
  with assms unprepareBatches_map_le[OF batches_failed(2)] show ?thesis
    by (intro that[of None a]) auto
next
  case (checkpoint_failed a c log)
  with assms unprepareBatches_map_le[OF checkpoint_failed(2)] show ?thesis
    by (intro that[of None a]) auto
next
  case (succeeded a c log)
  with assms unprepareBatches_map_le[OF succeeded(2)] show ?thesis
    by (intro that[of None a]) auto
qed


section \<open>Which plugin calls carry which claim\<close>

subsection \<open>Batches\<close>







lemma mkClaim_simps [simp]:
  "requestKey (mkClaim info h) = (ClaimName info, Namespace info)"
  "c_Uid (mkClaim info h) = ClaimUID info"
  by (simp_all add: mkClaim_def requestKey_def)

lemma preparePluginName_eq [simp]: "preparePluginName info h = DriverName info"
  by (simp add: preparePluginName_def)

subsection \<open>The calls the loops over the batches issue\<close>






subsection \<open>The requests of PrepareResources belong to records that are not prepared\<close>





lemma prepareInv_deferred [simp]: "prepareInv (a\<lparr>pa_deferred := d\<rparr>) = prepareInv a"
  by (simp add: prepareInv_def)




subsection \<open>A prepared claim gets no further prepare request\<close>











subsection \<open>The first caller queues the requests of the claim\<close>












subsection \<open>The call of the first caller\<close>




subsection \<open>UnprepareResources on a claim other pods still reference\<close>










subsection \<open>The call of a pod that is not the last holder\<close>







section \<open>The claims\<close>

text \<open>
  Claim C1. Every resource handle is batched under its own driver name when that name is
  not empty, and under the claim's driver name otherwise, in PrepareResources as in
  UnprepareResources. PrepareResources does not do this: it reads the claim's driver name
  twice and never the handle's. In the scenario the handle names gpu.example.com and the
  claim nic.example.com: PrepareResources calls the plugin nic.example.com, and
  UnprepareResources, on the record the first call produced, the plugin gpu.example.com.
\<close>

theorem C1_prepare_ignores_handle_driver:
  "PrepareResources exEnv (exPod ''pod-a'') emptyManager =
     (None, \<lparr>cache = [((''claim'', ''ns''), exInfo {''pod-a''})],
             checkpoint = [((''claim'', ''ns''), exInfo {''pod-a''})],
             rpcs = [PrepareCall ''nic.example.com'' [exRequest]]\<rparr>)
   \<and> UnprepareResources exEnv (exPod ''pod-a'') (exManager {''pod-a''}) =
     (None, \<lparr>cache = [], checkpoint = [],
             rpcs = [UnprepareCall ''gpu.example.com'' [exRequest]]\<rparr>)"
  by (simp add: model_defs example_defs)



text \<open>
  Claim C3. Calling UnprepareResources twice in a row for one pod leaves the cache after
  the second call as after the first, and the second call issues no plugin RPC. It fails
  on a claim two pods share: the first call of pod-a removes its reference and leaves the
  record to pod-b; the second call of pod-a finds one reference left (that of pod-b),
  calls NodeUnprepareResources and deletes the record.
\<close>

theorem C3_second_unprepare_releases_shared_claim:
  "UnprepareResources exEnv (exPod ''pod-a'') (exManager {''pod-a'', ''pod-b''}) =
     (None, \<lparr>cache = [((''claim'', ''ns''), exInfo {''pod-b''})],
             checkpoint = [((''claim'', ''ns''), exInfo {''pod-b''})], rpcs = []\<rparr>)
   \<and> UnprepareResources exEnv (exPod ''pod-a'')
        \<lparr>cache = [((''claim'', ''ns''), exInfo {''pod-b''})],
         checkpoint = [((''claim'', ''ns''), exInfo {''pod-b''})], rpcs = []\<rparr> =
     (None, \<lparr>cache = [], checkpoint = [],
             rpcs = [UnprepareCall ''gpu.example.com'' [exRequest]]\<rparr>)"
  by (simp add: model_defs example_defs)

text \<open>
  Claim C4. When the first loop of PrepareResources has built the batches and the response
  of some plugin to its batch names fewer claims than the batch holds, the call returns an
  error and sets no prepared flag: every record that is prepared at the return was
  prepared before the call.
\<close>

theorem C4_incomplete_response_fails_the_call:
  assumes "prepareClaims env pod (p_ResourceClaims pod) (initPrepareAcc m) = (None, a)"
    and "(pluginName, claims) \<in> set (pa_batches a)"
    and "nodePrepareResources env pluginName claims = Inr response"
    and "length response < length claims"
  shows "fst (PrepareResources env pod m) \<noteq> None \<and>
         (\<forall>k i'. map_of (cache (snd (PrepareResources env pod m))) k = Some i' \<and> prepared i' \<longrightarrow>
                 (\<exists>i. map_of (cache m) k = Some i \<and> prepared i))"
proof -
  have inc: "fst (prepareBatches env (pa_resourceClaims a) (orderBatches env (pa_batches a)) c log) \<noteq> None"
    for c log
    using assms(2,3,4) by (intro prepareBatches_incomplete[of pluginName claims _ _ response]) simp_all
  show ?thesis
  proof (cases env pod m rule: PrepareResources_cases)
    case (claims_failed e a0)
    with assms(1) show ?thesis by simp
  next
    case (batches_failed e a0 c log)
    with assms(1) have a0: "a0 = a" by simp
    have rel: "cacheRel devicesOnly (pa_cache a) c"
      using batches_failed(2) a0 by (auto dest: prepareBatches_devicesOnly)
    have "\<exists>i. map_of (cache m) k = Some i \<and> prepared i"
      if "map_of (runDeferred pod (Some e) (pa_deferred a) c) k = Some i'" "prepared i'" for k i'
    proof -
      from that obtain i2 where i2: "map_of c k = Some i2" "prepared i2"
        by (auto simp: runDeferred_def map_of_fold_deferredCleanup split: if_splits)
      from cacheRel_SomeD2[OF rel i2(1)] i2(2)
      obtain i1 where "map_of (pa_cache a) k = Some i1" "prepared i1"
        by (auto simp: devicesOnly_iff)
      with prepareClaims_adds_init[OF assms(1)] show ?thesis
        using prepareAdds_prepared by blast
    qed
    with batches_failed(3) a0 show ?thesis by simp
  next
    case (mark_failed e a0 c log c')
    with assms(1) inc[of "pa_cache a" "rpcs m"] show ?thesis by simp
  next
    case (checkpoint_failed a0 c log c')
    with assms(1) inc[of "pa_cache a" "rpcs m"] show ?thesis by simp
  next
    case (succeeded a0 c log c')
    with assms(1) inc[of "pa_cache a" "rpcs m"] show ?thesis by simp
  qed
qed

text \<open>
  The theorem at work: the plugin answers the batch of one request with an empty response;
  the call fails and the record it created is not prepared.
\<close>

theorem C4_incomplete_response_witness:
  "prepareClaims envShort (exPod ''pod-a'') (p_ResourceClaims (exPod ''pod-a''))
       (initPrepareAcc emptyManager) =
     (None, \<lparr>pa_cache = [((''claim'', ''ns''), exFresh {''pod-a''})],
             pa_batches = [(''nic.example.com'', [exRequest])],
             pa_resourceClaims = [(''uid-1'', exClaim)], pa_deferred = [exClaim]\<rparr>) \<and>
   nodePrepareResources envShort ''nic.example.com'' [exRequest] = Inr [] \<and>
   fst (PrepareResources envShort (exPod ''pod-a'') emptyManager) \<noteq> None \<and>
   \<not> (\<exists>k i'. map_of (cache (snd (PrepareResources envShort (exPod ''pod-a'') emptyManager))) k = Some i'
          \<and> prepared i')"
proof -
  have h1: "prepareClaims envShort (exPod ''pod-a'') (p_ResourceClaims (exPod ''pod-a''))
       (initPrepareAcc emptyManager) =
     (None, \<lparr>pa_cache = [((''claim'', ''ns''), exFresh {''pod-a''})],
             pa_batches = [(''nic.example.com'', [exRequest])],
             pa_resourceClaims = [(''uid-1'', exClaim)], pa_deferred = [exClaim]\<rparr>)"
    by (simp add: model_defs example_defs)
  have h2: "(''nic.example.com'', [exRequest]) \<in> set (pa_batches
      \<lparr>pa_cache = [((''claim'', ''ns''), exFresh {''pod-a''})],
             pa_batches = [(''nic.example.com'', [exRequest])],
             pa_resourceClaims = [(''uid-1'', exClaim)], pa_deferred = [exClaim]\<rparr>)"
    by simp
  have h3: "nodePrepareResources envShort ''nic.example.com'' [exRequest] = Inr []"
    by (simp add: example_defs)
  have h4: "length ([] :: (string \<times> NodePrepareResourceResponse) list) < length [exRequest]"
    by simp
  from C4_incomplete_response_fails_the_call[OF h1 h2 h3 h4] h1 h3 show ?thesis
    by (simp add: emptyManager_def)
qed




text \<open>
  Claim C6. If the checkpoint at the end of UnprepareResources fails, the call returns the
  error, and every record a plugin response released in this call is still deleted from
  the cache at the return: for every result in the response to a batch of the call, no
  record is cached under the claim name recorded for its UID and the pod's namespace. The
  checkpoint on disk is the one from before the call.
\<close>

theorem C6_checkpoint_failure_keeps_deletions:
  assumes "UnprepareResources env pod m = (Some ErrCheckpoint, m')"
    and "unprepareClaims env pod (p_ResourceClaims pod) (initUnprepareAcc m) = (e1, a)"
    and "(pluginName, claims) \<in> set (ua_batches a)"
    and "nodeUnprepareResources env pluginName claims = Inr response"
    and "(claimUID, result) \<in> set response"
  shows "map_of (cache m')
           (case map_of (ua_claimNames a) claimUID of None \<Rightarrow> [] | Some n \<Rightarrow> n, p_Namespace pod) = None \<and>
         checkpoint m' = checkpoint m"
proof (cases env pod m rule: UnprepareResources_cases)
  case (claims_failed e a0)
  with assms(1) show ?thesis by (simp add: unprepareClaims_error_not_checkpoint)
next
  case (batches_failed e a0 c log)
  with assms(1) show ?thesis by (simp add: unprepareBatches_error_not_checkpoint)
next
  case (checkpoint_failed a0 c log)
  with assms(2) have a0: "a0 = a" by simp
  from assms(3) have "(pluginName, claims) \<in> set (orderBatches env (ua_batches a))" by simp
  with checkpoint_failed(2) a0 assms(4,5) have
    "map_of c (case map_of (ua_claimNames a) claimUID of None \<Rightarrow> [] | Some n \<Rightarrow> n, p_Namespace pod) = None"
    using unprepareBatches_deleted by blast
  with checkpoint_failed(4) assms(1) show ?thesis by auto
next
  case (succeeded a0 c log)
  with assms(1) show ?thesis by simp
qed

text \<open>
  The theorem at work: pod-a is the only holder of the record; the plugin releases the
  claim, the checkpoint fails, the cache is empty and the checkpoint still holds the record.
\<close>

theorem C6_checkpoint_failure_witness:
  "UnprepareResources envNoCheckpoint (exPod ''pod-a'') (exManager {''pod-a''}) =
     (Some ErrCheckpoint,
      \<lparr>cache = [], checkpoint = [((''claim'', ''ns''), exInfo {''pod-a''})],
       rpcs = [UnprepareCall ''gpu.example.com'' [exRequest]]\<rparr>) \<and>
   unprepareClaims envNoCheckpoint (exPod ''pod-a'') (p_ResourceClaims (exPod ''pod-a''))
       (initUnprepareAcc (exManager {''pod-a''})) =
     (None, \<lparr>ua_cache = [((''claim'', ''ns''), exInfo {''pod-a''})],
             ua_batches = [(''gpu.example.com'', [exRequest])],
             ua_claimNames = [(''uid-1'', ''claim'')]\<rparr>) \<and>
   nodeUnprepareResources envNoCheckpoint ''gpu.example.com'' [exRequest] =
     Inr [(''uid-1'', \<lparr>unprep_Error = []\<rparr>)] \<and>
   map_of ([] :: claimInfoCache) (''claim'', ''ns'') = None \<and>
   checkpoint (exManager {''pod-a''}) = [((''claim'', ''ns''), exInfo {''pod-a''})]"
proof -
  have h1: "UnprepareResources envNoCheckpoint (exPod ''pod-a'') (exManager {''pod-a''}) =
     (Some ErrCheckpoint,
      \<lparr>cache = [], checkpoint = [((''claim'', ''ns''), exInfo {''pod-a''})],
       rpcs = [UnprepareCall ''gpu.example.com'' [exRequest]]\<rparr>)"
    by (simp add: model_defs example_defs)
  have h2: "unprepareClaims envNoCheckpoint (exPod ''pod-a'') (p_ResourceClaims (exPod ''pod-a''))
       (initUnprepareAcc (exManager {''pod-a''})) =
     (None, \<lparr>ua_cache = [((''claim'', ''ns''), exInfo {''pod-a''})],
             ua_batches = [(''gpu.example.com'', [exRequest])],
             ua_claimNames = [(''uid-1'', ''claim'')]\<rparr>)"
    by (simp add: model_defs example_defs)
  have h3: "(''gpu.example.com'', [exRequest]) \<in> set (ua_batches
       \<lparr>ua_cache = [((''claim'', ''ns''), exInfo {''pod-a''})],
             ua_batches = [(''gpu.example.com'', [exRequest])],
             ua_claimNames = [(''uid-1'', ''claim'')]\<rparr>)"
    by simp
  have h4: "nodeUnprepareResources envNoCheckpoint ''gpu.example.com'' [exRequest] =
     Inr [(''uid-1'', \<lparr>unprep_Error = []\<rparr>)]"
    by (simp add: example_defs)
  have h5: "(''uid-1'', \<lparr>unprep_Error = []\<rparr>) \<in> set [(''uid-1'', \<lparr>unprep_Error = []\<rparr>)]"
    by simp
  from C6_checkpoint_failure_keeps_deletions[OF h1 h2 h3 h4 h5] h1 h2 h4 show ?thesis
    by (simp add: exPod_def exManager_def)
qed

text \<open>
  Claim C7. When a pod names a claim whose reservation set does not list the pod,
  PrepareResources returns an error, no record of the cache gains the pod's reference (so
  the record of that claim does not), and no plugin is called: the reservation check
  comes before the transaction that adds the reference, the deferred functions take back
  what earlier claims of the call added, and the plugin calls come after the loop.
\<close>

theorem C7_unreserved_pod_is_rejected:
  assumes "podClaim \<in> set (p_ResourceClaims pod)"
    and "resolveClaimName env pod podClaim = Inr (Some claimName, mustCheckOwner)"
    and "getResourceClaim env (p_Namespace pod) claimName = Inr resourceClaim"
    and "\<not> IsReservedForPod pod resourceClaim"
  shows "fst (PrepareResources env pod m) \<noteq> None \<and>
         rpcs (snd (PrepareResources env pod m)) = rpcs m \<and>
         (\<forall>k i'. map_of (cache (snd (PrepareResources env pod m))) k = Some i' \<and>
                 p_UID pod \<in> PodUIDs i' \<longrightarrow>
                 (\<exists>i. map_of (cache m) k = Some i \<and> p_UID pod \<in> PodUIDs i))"
proof (cases env pod m rule: PrepareResources_cases)
  case (claims_failed e a)
  have np: "e \<noteq> NilPointerPanic"
    using claims_failed(1) by (rule prepareClaims_error_not_panic)
  let ?m' = "m\<lparr>cache := runDeferred pod (Some e) (pa_deferred a) (pa_cache a)\<rparr>"
  have refs: "map_option PodUIDs (map_of (cache ?m') k) =
     (if k \<in> claimKey ` set (pa_deferred a)
      then Some ((case map_of (cache m) k of Some i \<Rightarrow> PodUIDs i | None \<Rightarrow> {}) - {p_UID pod})
      else map_option PodUIDs (map_of (cache m) k))" for k
    using claims_failed(2) np claims_failed(1) by (rule PrepareResources_error_refs)
  have "\<exists>i. map_of (cache m) k = Some i \<and> p_UID pod \<in> PodUIDs i"
    if "map_of (cache ?m') k = Some i'" "p_UID pod \<in> PodUIDs i'" for k i'
    using refs[of k] that by (cases "map_of (cache m) k") (auto split: if_splits)
  then show ?thesis unfolding claims_failed(2) by simp
next
  case (batches_failed e a c log)
  with prepareClaims_not_reserved[OF assms, of "initPrepareAcc m"] show ?thesis by simp
next
  case (mark_failed e a c log c')
  with prepareClaims_not_reserved[OF assms, of "initPrepareAcc m"] show ?thesis by simp
next
  case (checkpoint_failed a c log c')
  with prepareClaims_not_reserved[OF assms, of "initPrepareAcc m"] show ?thesis by simp
next
  case (succeeded a c log c')
  with prepareClaims_not_reserved[OF assms, of "initPrepareAcc m"] show ?thesis by simp
qed

text \<open>
  The theorem at work: pod-c is not in the reservation set of the claim.
\<close>

theorem C7_unreserved_pod_witness:
  "exPodClaim \<in> set (p_ResourceClaims (exPod ''pod-c'')) \<and>
   resolveClaimName exEnv (exPod ''pod-c'') exPodClaim = Inr (Some ''claim'', False) \<and>
   getResourceClaim exEnv (p_Namespace (exPod ''pod-c'')) ''claim'' = Inr exClaim \<and>
   \<not> IsReservedForPod (exPod ''pod-c'') exClaim \<and>
   fst (PrepareResources exEnv (exPod ''pod-c'') emptyManager) \<noteq> None \<and>
   rpcs (snd (PrepareResources exEnv (exPod ''pod-c'') emptyManager)) = rpcs emptyManager"
proof -
  have h1: "exPodClaim \<in> set (p_ResourceClaims (exPod ''pod-c''))"
    by (simp add: example_defs)
  have h2: "resolveClaimName exEnv (exPod ''pod-c'') exPodClaim = Inr (Some ''claim'', False)"
    by (simp add: example_defs)
  have h3: "getResourceClaim exEnv (p_Namespace (exPod ''pod-c'')) ''claim'' = Inr exClaim"
    by (simp add: example_defs)
  have h4: "\<not> IsReservedForPod (exPod ''pod-c'') exClaim"
    by (simp add: IsReservedForPod_def example_defs)
  from C7_unreserved_pod_is_rejected[OF h1 h2 h3 h4, of emptyManager] h1 h2 h3 h4
  show ?thesis by simp
qed

text \<open>
  Claim C8. No operation of the manager resets the prepared flag of a record that stays in
  the cache: a record that is prepared before PrepareResources or UnprepareResources is,
  if still cached under its key afterwards, prepared; GetResources,
  GetContainerClaimInfos and PodMightNeedToUnprepareResources leave the whole state as it
  was.
\<close>

theorem C8_prepared_is_monotonic:
  assumes "map_of (cache m) k = Some i" and "prepared i"
  shows "(\<forall>i'. map_of (cache (snd (PrepareResources env pod m))) k = Some i' \<longrightarrow> prepared i') \<and>
         (\<forall>i'. map_of (cache (snd (UnprepareResources env pod m))) k = Some i' \<longrightarrow> prepared i') \<and>
         snd (GetResources env pod container m) = m \<and>
         snd (GetContainerClaimInfos env pod container m) = m \<and>
         snd (PodMightNeedToUnprepareResources uid m) = m"
proof -
  have p: "prepared i'" if "map_of (cache (snd (PrepareResources env pod m))) k = Some i'" for i'
  proof -
    obtain r m' where rm: "PrepareResources env pod m = (r, m')"
      by (cases "PrepareResources env pod m")
    then obtain e1 a c2 where sh:
      "prepareClaims env pod (p_ResourceClaims pod) (initPrepareAcc m) = (e1, a)"
      "cacheRel statusOnly (pa_cache a) c2"
      "cache m' = runDeferred pod r (pa_deferred a) c2"
      by (rule PrepareResources_shape)
    from prepareAdds_SomeD[OF prepareClaims_adds_init[OF sh(1)] assms(1)]
    obtain i1 where i1: "map_of (pa_cache a) k = Some i1" "prepared i1"
      using assms(2) by (auto split: if_splits)
    from cacheRel_SomeD[OF sh(2) i1(1)] i1(2)
    obtain i2 where i2: "map_of c2 k = Some i2" "prepared i2"
      by (auto simp: statusOnly_iff)
    from that rm sh(3) i2 show ?thesis
      by (auto simp: runDeferred_def map_of_fold_deferredCleanup split: if_splits)
  qed
  have u: "prepared i'" if "map_of (cache (snd (UnprepareResources env pod m))) k = Some i'" for i'
  proof -
    obtain r m' where rm: "UnprepareResources env pod m = (r, m')"
      by (cases "UnprepareResources env pod m")
    then obtain e1 a where sh:
      "unprepareClaims env pod (p_ResourceClaims pod) (initUnprepareAcc m) = (e1, a)"
      "map_of (cache m') \<subseteq>\<^sub>m map_of (ua_cache a)"
      by (rule UnprepareResources_shape)
    from that rm sh(2) have "map_of (ua_cache a) k = Some i'"
      by (metis domI map_le_def snd_conv)
    moreover have "cacheRel (refDropped (p_UID pod)) (cache m) (ua_cache a)"
      using unprepareClaims_refDropped[OF sh(1)] by (simp add: initUnprepareAcc_def)
    ultimately obtain i0 where "map_of (cache m) k = Some i0" "refDropped (p_UID pod) i0 i'"
      using cacheRel_SomeD2 by blast
    with assms show ?thesis by (auto dest: refDropped_prepared)
  qed
  from p u show ?thesis
    by (simp add: GetResources_def GetContainerClaimInfos_def PodMightNeedToUnprepareResources_def)
qed

text \<open>
  The theorem at work: the prepared record shared by pod-a and pod-b stays prepared through
  a PrepareResources and through an UnprepareResources of pod-a.
\<close>

theorem C8_prepared_witness:
  "map_of (cache (exManager {''pod-a'', ''pod-b''})) (''claim'', ''ns'') =
     Some (exInfo {''pod-a'', ''pod-b''}) \<and>
   prepared (exInfo {''pod-a'', ''pod-b''}) \<and>
   map_of (cache (snd (PrepareResources exEnv (exPod ''pod-a'') (exManager {''pod-a'', ''pod-b''}))))
     (''claim'', ''ns'') = Some (exInfo {''pod-a'', ''pod-b''}) \<and>
   map_of (cache (snd (UnprepareResources exEnv (exPod ''pod-a'') (exManager {''pod-a'', ''pod-b''}))))
     (''claim'', ''ns'') = Some (exInfo {''pod-b''}) \<and>
   prepared (exInfo {''pod-b''})"
proof -
  have h1: "map_of (cache (exManager {''pod-a'', ''pod-b''})) (''claim'', ''ns'') =
     Some (exInfo {''pod-a'', ''pod-b''})"
    by (simp add: exManager_def)
  have h2: "prepared (exInfo {''pod-a'', ''pod-b''})"
    by (simp add: exInfo_def)
  have e1: "map_of (cache (snd (PrepareResources exEnv (exPod ''pod-a'') (exManager {''pod-a'', ''pod-b''}))))
     (''claim'', ''ns'') = Some (exInfo {''pod-a'', ''pod-b''})"
    by (simp add: model_defs example_defs)
  have e2: "map_of (cache (snd (UnprepareResources exEnv (exPod ''pod-a'') (exManager {''pod-a'', ''pod-b''}))))
     (''claim'', ''ns'') = Some (exInfo {''pod-b''})"
    by (simp add: model_defs example_defs)
  from C8_prepared_is_monotonic[OF h1 h2, of exEnv "exPod ''pod-a''"] e1 e2 h1 h2
  show ?thesis by simp
qed

text \<open>
  Claim C9. PodMightNeedToUnprepareResources returns true if and only if some record in
  the cache has the identifier among its pod references, and it leaves the state of the
  manager as it was.
\<close>

theorem C9_pod_might_need_to_unprepare:
  "PodMightNeedToUnprepareResources uid m =
     ((\<exists>k i. map_of (cache m) k = Some i \<and> uid \<in> PodUIDs i), m)"
  by (simp add: PodMightNeedToUnprepareResources_def hasPodReference_iff)

text \<open>
  Claim C10. GetContainerClaimInfos skips a pod claim whose name resolves to nil before
  any cache lookup, as GetResources does. It does not: where the container lists such a
  claim, the closure dereferences the nil name and the call panics; GetResources on the
  same input skips the entry and returns the empty ContainerInfo.
\<close>

theorem C10_nil_claim_name_dereferenced:
  "GetContainerClaimInfos (exEnv\<lparr>resolveClaimName := (\<lambda>pod pc. Inr (None, False))\<rparr>)
      (exPod ''pod-a'') \<lparr>ctr_Name = ''main'', ctr_Claims = [''res'']\<rparr> emptyManager
     = (Inl NilPointerPanic, emptyManager)
   \<and> GetResources (exEnv\<lparr>resolveClaimName := (\<lambda>pod pc. Inr (None, False))\<rparr>)
      (exPod ''pod-a'') \<lparr>ctr_Name = ''main'', ctr_Claims = [''res'']\<rparr> emptyManager
     = (Inr \<lparr>ci_Annotations = [], ci_CDIDevices = []\<rparr>, emptyManager)"
  by (simp add: model_defs example_defs)

end
